theory Spec2Isabelle
  imports Complex_Main "HOL-Library.Code_Target_Nat"
begin

section \<open>Data model (src/types/index.ts)\<close>

text \<open>
  JavaScript strings are sequences of UTF-16 code units; a code unit is modelled by its
  numeric value, so that the currency signs of the detectors (for example the euro sign,
  code unit 8364) are ordinary members of a text.  \<open>str\<close> turns an ASCII literal into
  such a text.
\<close>

type_synonym jstring = "nat list"

definition str :: "string \<Rightarrow> jstring" where
  "str s = map of_char s"

datatype PatternType =
  ADDRESS | PHONE | EMAIL | DATE_TIME | TRACKING_NUMBER | CURRENCY | UNIT | URL

text \<open>
  \<open>PatternMatch\<close>: \<open>confidence\<close> is a JavaScript number; every confidence the
  detectors compute is a short decimal, modelled exactly as a rational.  The metadata
  object is modelled as the list of its string-valued entries that are read by a property
  below (\<open>domain\<close>, \<open>localPart\<close>, \<open>carrier\<close>, \<open>symbol\<close>, \<open>code\<close>); the remaining
  entries are computed by loop-free helper methods from the matched text alone.
\<close>

record PatternMatch =
  ptype :: PatternType
  match :: jstring
  confidence :: rat
  startIndex :: int
  endIndex :: int
  metadata :: "(string \<times> jstring) list"

datatype ActionType =
  A_MAP_IT | A_EMAIL | A_CALENDAR | A_TRACK_PACKAGE | A_CALL | A_MESSAGE | A_COPY
  | A_SEARCH | A_CONVERT | A_TRANSLATE | A_DEFINE | A_QUICK_NOTE | A_SHARE

text \<open>
  \<open>QuickAction\<close> without its \<open>icon\<close> and its \<open>execute\<close> closure, which action
  resolution never reads.
\<close>

record QuickAction =
  action_id :: string
  action_name :: string
  action_type :: ActionType
  enabled :: bool

section \<open>Action catalog (ActionButtonManager)\<close>

text \<open>\<open>FEATURE_FLAGS.AI_PARSING\<close> of the constants module.\<close>

definition FEATURE_FLAGS_AI_PARSING :: bool where
  "FEATURE_FLAGS_AI_PARSING = False"

text \<open>
  A JavaScript \<open>Map\<close> keeps its keys in insertion order: an association list in which
  \<open>set\<close> overwrites the value of a present key in place and appends a new key.
\<close>

type_synonym ('k, 'v) jsmap = "('k \<times> 'v) list"

fun map_set :: "('k, 'v) jsmap \<Rightarrow> 'k \<Rightarrow> 'v \<Rightarrow> ('k, 'v) jsmap" where
  "map_set [] k v = [(k, v)]"
| "map_set ((k', v') # m) k v =
     (if k' = k then (k, v) # m else (k', v') # map_set m k v)"

definition map_get :: "('k, 'v) jsmap \<Rightarrow> 'k \<Rightarrow> 'v option" where
  "map_get m k = map_of m k"

definition map_values :: "('k, 'v) jsmap \<Rightarrow> 'v list" where
  "map_values m = map snd m"

record ActionButtonManager =
  isInitialized :: bool
  availableActions :: "(ActionType, QuickAction) jsmap"
  actionFactories :: "(ActionType, QuickAction) jsmap"

text \<open>The state of a freshly constructed manager.\<close>

definition new_ActionButtonManager :: ActionButtonManager where
  "new_ActionButtonManager =
     \<lparr>isInitialized = False, availableActions = [], actionFactories = []\<rparr>"

definition mk_action :: "string \<Rightarrow> string \<Rightarrow> ActionType \<Rightarrow> bool \<Rightarrow> QuickAction" where
  "mk_action i n t e = \<lparr>action_id = i, action_name = n, action_type = t, enabled = e\<rparr>"

text \<open>
  \<open>initializeActionFactories\<close>: thirteen \<open>set\<close> calls in source order.  A factory is a
  closure that returns a fresh record with constant fields; the record it returns stands
  for it.
\<close>

definition factory_table :: "(ActionType \<times> QuickAction) list" where
  "factory_table =
    [(A_MAP_IT, mk_action ''map_it'' ''Map It'' A_MAP_IT True),
     (A_EMAIL, mk_action ''email'' ''Compose Email'' A_EMAIL True),
     (A_CALENDAR, mk_action ''calendar'' ''Add to Calendar'' A_CALENDAR FEATURE_FLAGS_AI_PARSING),
     (A_TRACK_PACKAGE, mk_action ''track_package'' ''Track Package'' A_TRACK_PACKAGE True),
     (A_CALL, mk_action ''call'' ''Call'' A_CALL True),
     (A_MESSAGE, mk_action ''message'' ''Message'' A_MESSAGE True),
     (A_COPY, mk_action ''copy'' ''Copy'' A_COPY True),
     (A_SEARCH, mk_action ''search'' ''Search'' A_SEARCH True),
     (A_CONVERT, mk_action ''convert'' ''Convert'' A_CONVERT True),
     (A_TRANSLATE, mk_action ''translate'' ''Translate'' A_TRANSLATE True),
     (A_DEFINE, mk_action ''define'' ''Define'' A_DEFINE True),
     (A_QUICK_NOTE, mk_action ''quick_note'' ''Quick Note'' A_QUICK_NOTE True),
     (A_SHARE, mk_action ''share'' ''Share'' A_SHARE True)]"

definition initializeActionFactories :: "ActionButtonManager \<Rightarrow> ActionButtonManager" where
  "initializeActionFactories s =
     s\<lparr>actionFactories := foldl (\<lambda>m (k, v). map_set m k v) (actionFactories s) factory_table\<rparr>"

definition createDefaultActions :: "ActionButtonManager \<Rightarrow> ActionButtonManager" where
  "createDefaultActions s =
     s\<lparr>availableActions :=
         foldl (\<lambda>m (k, v). map_set m k v) (availableActions s) (actionFactories s)\<rparr>"

definition initialize :: "ActionButtonManager \<Rightarrow> ActionButtonManager" where
  "initialize s =
     (if isInitialized s then s
      else (createDefaultActions (initializeActionFactories s))\<lparr>isInitialized := True\<rparr>)"

definition cleanup :: "ActionButtonManager \<Rightarrow> ActionButtonManager" where
  "cleanup s = s\<lparr>availableActions := [], actionFactories := [], isInitialized := False\<rparr>"

text \<open>\<open>a || b\<close> on values that are an object or \<open>undefined\<close>.\<close>

definition or_else :: "'a option \<Rightarrow> 'a option \<Rightarrow> 'a option" where
  "or_else a b = (case a of Some x \<Rightarrow> Some x | None \<Rightarrow> b)"

definition getActionForPattern :: "ActionButtonManager \<Rightarrow> PatternMatch \<Rightarrow> QuickAction option" where
  "getActionForPattern s p =
     (case ptype p of
        ADDRESS \<Rightarrow> map_get (availableActions s) A_MAP_IT
      | EMAIL \<Rightarrow> map_get (availableActions s) A_EMAIL
      | PHONE \<Rightarrow>
          or_else (map_get (availableActions s) A_CALL) (map_get (availableActions s) A_MESSAGE)
      | DATE_TIME \<Rightarrow> map_get (availableActions s) A_CALENDAR
      | TRACKING_NUMBER \<Rightarrow> map_get (availableActions s) A_TRACK_PACKAGE
      | CURRENCY \<Rightarrow> map_get (availableActions s) A_CONVERT
      | UNIT \<Rightarrow> map_get (availableActions s) A_CONVERT
      | URL \<Rightarrow>
          or_else (map_get (availableActions s) A_QUICK_NOTE)
            (map_get (availableActions s) A_SHARE))"

text \<open>The body of the \<open>patterns.forEach\<close> callback of \<open>getAvailableActions\<close>.\<close>

definition add_pattern_action ::
  "ActionButtonManager \<Rightarrow> QuickAction list \<Rightarrow> PatternMatch \<Rightarrow> QuickAction list" where
  "add_pattern_action s actions p =
     (case getActionForPattern s p of
        None \<Rightarrow> actions
      | Some a \<Rightarrow>
          if enabled a \<and> \<not> list_ex (\<lambda>b. action_id b = action_id a) actions
          then actions @ [a] else actions)"

definition push_if_enabled :: "QuickAction option \<Rightarrow> QuickAction list \<Rightarrow> QuickAction list" where
  "push_if_enabled a actions =
     (case a of None \<Rightarrow> actions | Some x \<Rightarrow> if enabled x then actions @ [x] else actions)"

definition getAvailableActions :: "ActionButtonManager \<Rightarrow> PatternMatch list \<Rightarrow> QuickAction list" where
  "getAvailableActions s patterns =
     (if \<not> isInitialized s then []
      else
        let allActions = map_values (availableActions s);
            copyAction = find (\<lambda>a. action_type a = A_COPY) allActions;
            searchAction = find (\<lambda>a. action_type a = A_SEARCH) allActions;
            actions = push_if_enabled searchAction (push_if_enabled copyAction [])
        in foldl (add_pattern_action s) actions patterns)"

definition updateActionAvailability ::
  "ActionButtonManager \<Rightarrow> ActionType \<Rightarrow> bool \<Rightarrow> ActionButtonManager" where
  "updateActionAvailability s t e =
     (case map_get (availableActions s) t of
        None \<Rightarrow> s
      | Some a \<Rightarrow> s\<lparr>availableActions := map_set (availableActions s) t (a\<lparr>enabled := e\<rparr>)\<rparr>)"

text \<open>
  \<open>updateActionAvailabilityFromPreferences\<close>; the argument is the
  \<open>enabledActions\<close> id list of the preferences (the empty list when it is missing).
\<close>

definition updateActionAvailabilityFromPreferences ::
  "ActionButtonManager \<Rightarrow> string list \<Rightarrow> ActionButtonManager" where
  "updateActionAvailabilityFromPreferences s enabledActions =
     s\<lparr>availableActions :=
         map (\<lambda>(k, a). (k, a\<lparr>enabled := (action_id a \<in> set enabledActions)\<rparr>))
           (availableActions s)\<rparr>"

text \<open>
  The catalogs a caller can reach: \<open>initialize\<close> on a fresh manager, followed by any
  number of availability updates.
\<close>

inductive reachable :: "ActionButtonManager \<Rightarrow> bool" where
  r_init: "reachable (initialize new_ActionButtonManager)"
| r_update: "reachable s \<Longrightarrow> reachable (updateActionAvailability s t e)"
| r_prefs: "reachable s \<Longrightarrow> reachable (updateActionAvailabilityFromPreferences s ids)"

text \<open>The entry of the catalog for an action type, and its \<open>enabled\<close> flag.\<close>

definition is_enabled :: "ActionButtonManager \<Rightarrow> ActionType \<Rightarrow> bool" where
  "is_enabled s t = (case map_get (availableActions s) t of None \<Rightarrow> False | Some a \<Rightarrow> enabled a)"

definition action_ids :: "QuickAction list \<Rightarrow> string list" where
  "action_ids as = map action_id as"

definition phone_match :: PatternMatch where
  "phone_match =
     \<lparr>ptype = PHONE, match = str ''(555) 123-4567'', confidence = 95 / 100,
      startIndex = 0, endIndex = 14, metadata = []\<rparr>"

definition date_match :: PatternMatch where
  "date_match =
     \<lparr>ptype = DATE_TIME, match = str ''12/25/2024'', confidence = 75 / 100,
      startIndex = 0, endIndex = 10, metadata = []\<rparr>"


section \<open>Conflict resolver (PatternRecognitionEngine.sortAndDeduplicatePatterns)\<close>

definition patternsOverlap :: "PatternMatch \<Rightarrow> PatternMatch \<Rightarrow> bool" where
  "patternsOverlap a b \<longleftrightarrow> \<not> (endIndex a \<le> startIndex b \<or> endIndex b \<le> startIndex a)"

text \<open>
  \<open>patterns.sort((a, b) => b.confidence - a.confidence)\<close>: \<open>Array.prototype.sort\<close> is a
  stable sort, here by descending confidence.
\<close>

definition sort_by_confidence :: "PatternMatch list \<Rightarrow> PatternMatch list" where
  "sort_by_confidence patterns = sort_key (\<lambda>p. - confidence p) patterns"

text \<open>The \<open>for (const pattern of sorted)\<close> loop, with \<open>deduplicated\<close> as accumulator.\<close>

fun dedup_loop :: "PatternMatch list \<Rightarrow> PatternMatch list \<Rightarrow> PatternMatch list" where
  "dedup_loop deduplicated [] = deduplicated"
| "dedup_loop deduplicated (p # rest) =
     (if list_ex (\<lambda>existing. patternsOverlap p existing) deduplicated
      then dedup_loop deduplicated rest
      else dedup_loop (deduplicated @ [p]) rest)"

definition sortAndDeduplicatePatterns :: "PatternMatch list \<Rightarrow> PatternMatch list" where
  "sortAndDeduplicatePatterns patterns = dedup_loop [] (sort_by_confidence patterns)"

abbreviation conf_ge :: "PatternMatch \<Rightarrow> PatternMatch \<Rightarrow> bool" where
  "conf_ge a b \<equiv> confidence b \<le> confidence a"

abbreviation apart :: "PatternMatch \<Rightarrow> PatternMatch \<Rightarrow> bool" where
  "apart a b \<equiv> \<not> patternsOverlap a b"

definition pm :: "PatternType \<Rightarrow> rat \<Rightarrow> int \<Rightarrow> int \<Rightarrow> PatternMatch" where
  "pm t c s e =
     \<lparr>ptype = t, match = [], confidence = c, startIndex = s, endIndex = e, metadata = []\<rparr>"

section \<open>Regular expressions\<close>

text \<open>
  The detectors are driven by regular-expression literals.  This section gives the
  fragment of ECMAScript regular expressions those literals use: character classes,
  sequence, ordered alternation, greedy bounded and unbounded repetition, and the
  assertions \<open>^\<close>, \<open>$\<close> and \<open>\b\<close>.  Capture groups are plain groups, because the
  detectors read only \<open>match[0]\<close> and \<open>match.index\<close>.
\<close>

datatype citem = Ch nat | Rng nat nat | Digit | Space

definition is_digit :: "nat \<Rightarrow> bool" where
  "is_digit c \<longleftrightarrow> 48 \<le> c \<and> c \<le> 57"

text \<open>\<open>\s\<close>: the white space and line terminator code units of ECMAScript.\<close>

definition is_space :: "nat \<Rightarrow> bool" where
  "is_space c \<longleftrightarrow> (9 \<le> c \<and> c \<le> 13) \<or> c = 32 \<or> c = 160 \<or> c = 5760
     \<or> (8192 \<le> c \<and> c \<le> 8202) \<or> c = 8232 \<or> c = 8233 \<or> c = 8239 \<or> c = 8287
     \<or> c = 12288 \<or> c = 65279"

definition is_word :: "nat \<Rightarrow> bool" where
  "is_word c \<longleftrightarrow> (97 \<le> c \<and> c \<le> 122) \<or> (65 \<le> c \<and> c \<le> 90) \<or> is_digit c \<or> c = 95"

fun in_item :: "citem \<Rightarrow> nat \<Rightarrow> bool" where
  "in_item (Ch a) c = (c = a)"
| "in_item (Rng lo hi) c = (lo \<le> c \<and> c \<le> hi)"
| "in_item Digit c = is_digit c"
| "in_item Space c = is_space c"

definition in_class :: "citem list \<Rightarrow> nat \<Rightarrow> bool" where
  "in_class its c = list_ex (\<lambda>it. in_item it c) its"

text \<open>
  With the \<open>i\<close> flag a code unit matches a class when some member of the class has the
  same canonical form.  Every class member of the literals below is an ASCII character or
  a character without case mapping to a single code unit, and a non-ASCII code unit never
  canonicalises to an ASCII one, so the canonical form only folds \<open>a\<close>..\<open>z\<close> onto
  \<open>A\<close>..\<open>Z\<close>.
\<close>

definition class_match :: "bool \<Rightarrow> citem list \<Rightarrow> nat \<Rightarrow> bool" where
  "class_match ic its c =
     (in_class its c
      \<or> (ic \<and> 97 \<le> c \<and> c \<le> 122 \<and> in_class its (c - 32))
      \<or> (ic \<and> 65 \<le> c \<and> c \<le> 90 \<and> in_class its (c + 32)))"

datatype regex =
  Cls "citem list" | Eps | Seq regex regex | Alt regex regex
  | Rep nat "nat option" regex | Bol | Eol | WordB

fun rsize :: "regex \<Rightarrow> nat" where
  "rsize (Seq a b) = Suc (rsize a + rsize b)"
| "rsize (Alt a b) = Suc (rsize a + rsize b)"
| "rsize (Rep m n r) = Suc (rsize r)"
| "rsize _ = 0"

definition word_at :: "jstring \<Rightarrow> nat \<Rightarrow> bool" where
  "word_at t i \<longleftrightarrow> i < length t \<and> is_word (t ! i)"

definition dec_max :: "nat option \<Rightarrow> nat option" where
  "dec_max n = map_option (\<lambda>k. k - 1) n"

text \<open>
  \<open>ends ic t r i\<close> lists the end positions of the matches of \<open>r\<close> in \<open>t\<close> that start at
  \<open>i\<close>, in the order in which the backtracking matcher of ECMAScript tries them: the
  head of the list is the match the engine reports.  Repetition follows
  \<open>RepeatMatcher\<close>: \<open>m\<close> and \<open>n\<close> are the remaining minimum and maximum (\<open>None\<close> is
  no maximum), an iteration that consumes nothing is rejected once the minimum is
  reached, and the greedy alternative comes first.  The test \<open>j < i \<or> length t < j\<close>
  never succeeds (see \<open>ends_bounds\<close>); it makes the recursion visibly well-founded.
\<close>

function (sequential) ends :: "bool \<Rightarrow> jstring \<Rightarrow> regex \<Rightarrow> nat \<Rightarrow> nat list" where
  "ends ic t (Cls its) i = (if i < length t \<and> class_match ic its (t ! i) then [Suc i] else [])"
| "ends ic t Eps i = [i]"
| "ends ic t (Seq a b) i = concat (map (ends ic t b) (ends ic t a i))"
| "ends ic t (Alt a b) i = ends ic t a i @ ends ic t b i"
| "ends ic t Bol i = (if i = 0 then [i] else [])"
| "ends ic t Eol i = (if i = length t then [i] else [])"
| "ends ic t WordB i = (if (0 < i \<and> word_at t (i - 1)) \<noteq> word_at t i then [i] else [])"
| "ends ic t (Rep m n r) i =
     (if n = Some 0 then [i]
      else
        let again = concat (map (\<lambda>j.
              if j < i \<or> length t < j then []
              else if j = i \<and> m = 0 then []
              else ends ic t (Rep (m - 1) (dec_max n) r) j) (ends ic t r i))
        in if m \<noteq> 0 then again else again @ [i])"
  by pat_completeness auto
termination
  apply (relation "inv_image (less_than <*lex*> less_than <*lex*> less_than)
     (\<lambda>(ic, t, r, i). (rsize r, Suc (length t) - i, case r of Rep m n r' \<Rightarrow> m | _ \<Rightarrow> 0))")
  apply auto
  done

declare ends.simps [simp del]

text \<open>A \<open>RegExp\<close> object: its pattern and the two flags the literals use.\<close>

record RegExp =
  source :: regex
  global :: bool
  ignoreCase :: bool

definition re_plain :: "regex \<Rightarrow> RegExp" where
  "re_plain r = \<lparr>source = r, global = False, ignoreCase = False\<rparr>"
definition re_g :: "regex \<Rightarrow> RegExp" where
  "re_g r = \<lparr>source = r, global = True, ignoreCase = False\<rparr>"
definition re_i :: "regex \<Rightarrow> RegExp" where
  "re_i r = \<lparr>source = r, global = False, ignoreCase = True\<rparr>"
definition re_gi :: "regex \<Rightarrow> RegExp" where
  "re_gi r = \<lparr>source = r, global = True, ignoreCase = True\<rparr>"

fun scan :: "bool \<Rightarrow> jstring \<Rightarrow> regex \<Rightarrow> nat list \<Rightarrow> (nat \<times> nat) option" where
  "scan ic t r [] = None"
| "scan ic t r (i # starts) =
     (case ends ic t r i of [] \<Rightarrow> scan ic t r starts | e # _ \<Rightarrow> Some (i, e))"

text \<open>
  \<open>RegExp.prototype.exec\<close> (\<open>RegExpBuiltinExec\<close>): the search starts at \<open>lastIndex\<close>
  for a global expression and at 0 otherwise, and tries every start position up to the
  length of the text.  The result is the start and the end of the match, \<open>None\<close> for
  \<open>null\<close>.
\<close>

definition exec :: "RegExp \<Rightarrow> jstring \<Rightarrow> nat \<Rightarrow> (nat \<times> nat) option" where
  "exec re t lastIndex =
     scan (ignoreCase re) t (source re)
       [(if global re then lastIndex else 0) ..< Suc (length t)]"

definition slice :: "jstring \<Rightarrow> nat \<Rightarrow> nat \<Rightarrow> jstring" where
  "slice t s e = take (e - s) (drop s t)"

text \<open>
  The loop \<open>while ((match = pattern.exec(text)) !== null) { ... }\<close>.  \<open>exec\<close> stores
  the end of a match in \<open>lastIndex\<close> only for a global expression, and resets it to 0
  when it returns \<open>null\<close>; so every loop starts from \<open>lastIndex = 0\<close>, and
  \<open>lastIndex\<close> is a variable of the loop.  \<open>body\<close> is the loop body: from
  \<open>match[0]\<close> and \<open>match.index\<close> to the matches it pushes.  The array
  \<open>matches\<close> is a list, without the bounds that memory and the array length put on a
  JavaScript array.  The loop may run forever: the result \<open>None\<close> is no return.
\<close>

partial_function (option) exec_while ::
  "RegExp \<Rightarrow> jstring \<Rightarrow> (jstring \<Rightarrow> nat \<Rightarrow> PatternMatch list) \<Rightarrow> nat \<Rightarrow> PatternMatch list
     \<Rightarrow> PatternMatch list option" where
  "exec_while re text body lastIndex matches =
     (case exec re text lastIndex of
        None \<Rightarrow> Some matches
      | Some (s, e) \<Rightarrow>
          exec_while re text body (if global re then e else lastIndex)
            (matches @ body (slice text s e) s))"

declare exec_while.simps [code]

text \<open>\<open>patterns.forEach(...)\<close> around that loop.\<close>

fun forEach_exec ::
  "(RegExp \<times> (jstring \<Rightarrow> nat \<Rightarrow> PatternMatch list)) list \<Rightarrow> jstring \<Rightarrow> PatternMatch list
     \<Rightarrow> PatternMatch list option" where
  "forEach_exec [] text matches = Some matches"
| "forEach_exec ((re, body) # rest) text matches =
     (case exec_while re text body 0 matches of
        None \<Rightarrow> None
      | Some matches' \<Rightarrow> forEach_exec rest text matches')"

subsection \<open>Notation for the literals\<close>

definition ch :: "char \<Rightarrow> citem" where "ch c = Ch (of_char c)"
definition chs :: "string \<Rightarrow> citem list" where "chs s = map ch s"
definition rng :: "char \<Rightarrow> char \<Rightarrow> citem" where "rng a b = Rng (of_char a) (of_char b)"
definition cu :: "nat \<Rightarrow> regex" where "cu n = Cls [Ch n]"
definition lit :: "string \<Rightarrow> regex" where
  "lit s = foldr (\<lambda>c r. Seq (Cls [ch c]) r) s Eps"
definition seqs :: "regex list \<Rightarrow> regex" where "seqs rs = foldr Seq rs Eps"

fun alts :: "regex list \<Rightarrow> regex" where
  "alts [] = Cls []"
| "alts [r] = r"
| "alts (r # rs) = Alt r (alts rs)"

definition words :: "string list \<Rightarrow> regex" where "words ws = alts (map lit ws)"
definition opt :: "regex \<Rightarrow> regex" where "opt r = Rep 0 (Some 1) r"
definition many0 :: "regex \<Rightarrow> regex" where "many0 r = Rep 0 None r"
definition many1 :: "regex \<Rightarrow> regex" where "many1 r = Rep 1 None r"
definition atleast :: "nat \<Rightarrow> regex \<Rightarrow> regex" where "atleast k r = Rep k None r"
definition between :: "nat \<Rightarrow> nat \<Rightarrow> regex \<Rightarrow> regex" where "between k l r = Rep k (Some l) r"
definition exactly :: "nat \<Rightarrow> regex \<Rightarrow> regex" where "exactly k r = Rep k (Some k) r"

text \<open>\<open>lit_q ''tons''\<close> is \<open>tons?\<close>: the last character is optional.\<close>

definition lit_q :: "string \<Rightarrow> regex" where
  "lit_q s = Seq (lit (butlast s)) (opt (lit [last s]))"

definition digit :: regex where "digit = Cls [Digit]"
definition d09 :: regex where "d09 = Cls [rng CHR ''0'' CHR ''9'']"
definition AZ :: regex where "AZ = Cls [rng CHR ''A'' CHR ''Z'']"
definition space :: regex where "space = Cls [Space]"
definition ws0 :: regex where "ws0 = many0 space"
definition ws1 :: regex where "ws1 = many1 space"
definition dplus :: regex where "dplus = many1 digit"


section \<open>String helpers\<close>

definition startsWith :: "jstring \<Rightarrow> jstring \<Rightarrow> bool" where
  "startsWith t s \<longleftrightarrow> take (length s) t = s"

definition endsWith :: "jstring \<Rightarrow> jstring \<Rightarrow> bool" where
  "endsWith t s \<longleftrightarrow> length s \<le> length t \<and> drop (length t - length s) t = s"

fun includes_str :: "jstring \<Rightarrow> jstring \<Rightarrow> bool" where
  "includes_str [] s = (s = [])"
| "includes_str (c # cs) s = (startsWith (c # cs) s \<or> includes_str cs s)"

text \<open>\<open>t.split(c)\<close> for a one-character separator.\<close>

fun split :: "nat \<Rightarrow> jstring \<Rightarrow> jstring list" where
  "split c [] = [[]]"
| "split c (x # xs) =
     (if x = c then [] # split c xs
      else (case split c xs of [] \<Rightarrow> [[x]] | p # ps \<Rightarrow> (x # p) # ps))"

text \<open>\<open>a[i]\<close> on an array: \<open>None\<close> is \<open>undefined\<close>.\<close>

definition at_index :: "'a list \<Rightarrow> nat \<Rightarrow> 'a option" where
  "at_index xs i = (if i < length xs then Some (xs ! i) else None)"

text \<open>\<open>toLowerCase\<close>, on the ASCII names it is applied to.\<close>

definition toLowerCase :: "jstring \<Rightarrow> jstring" where
  "toLowerCase s = map (\<lambda>c. if 65 \<le> c \<and> c \<le> 90 then c + 32 else c) s"

text \<open>An entry of a metadata object; an \<open>undefined\<close> value leaves no entry.\<close>

definition entry :: "string \<Rightarrow> jstring option \<Rightarrow> (string \<times> jstring) list" where
  "entry k v = (case v of None \<Rightarrow> [] | Some x \<Rightarrow> [(k, x)])"

section \<open>Confidence heuristics\<close>

definition calculateEmailConfidence :: "jstring \<Rightarrow> rat" where
  "calculateEmailConfidence email =
     (if length email > 50 then 3 / 10
      else if includes_str email (str ''..'') then 4 / 10
      else if startsWith email (str ''.'') \<or> endsWith email (str ''.'') then 5 / 10
      else if length (split 64 email) \<noteq> 2 then 3 / 10
      else
        let localPart = split 64 email ! 0; domain = split 64 email ! 1 in
        if length localPart < 1 \<or> length domain < 3 then 4 / 10
        else if includes_str domain (str ''..'') then 4 / 10
        else 9 / 10)"

definition calculatePhoneConfidence :: "jstring \<Rightarrow> rat" where
  "calculatePhoneConfidence phone =
     (let digits = filter is_digit phone in
      if length digits < 7 \<or> length digits > 15 then 3 / 10
      else if length digits = 10 \<or> length digits = 11 then 9 / 10
      else 7 / 10)"

definition calculateUrlConfidence :: "jstring \<Rightarrow> rat" where
  "calculateUrlConfidence url =
     (if length url < 10 then 3 / 10
      else if \<not> includes_str url (str ''.'') \<or> includes_str url (str ''..'') then 4 / 10
      else if startsWith url (str ''http://'') \<or> startsWith url (str ''https://'') then 95 / 100
      else 8 / 10)"

definition calculateAddressConfidence :: "jstring \<Rightarrow> nat \<Rightarrow> rat" where
  "calculateAddressConfidence address patternIndex =
     (let baseConfidence = 6 / 10 + of_nat patternIndex * (1 / 10);
          lengthBonus = min (of_nat (length address) / 100) (2 / 10)
      in min (baseConfidence + lengthBonus) (95 / 100))"

definition calculateDateTimeConfidence :: "jstring \<Rightarrow> nat \<Rightarrow> rat" where
  "calculateDateTimeConfidence dateTime patternIndex =
     min (7 / 10 + of_nat patternIndex * (5 / 100)) (95 / 100)"

definition calculateCurrencyConfidence :: "jstring \<Rightarrow> nat \<Rightarrow> rat" where
  "calculateCurrencyConfidence currency patternIndex = 8 / 10 + of_nat patternIndex * (5 / 100)"

definition calculateUnitConfidence :: "jstring \<Rightarrow> nat \<Rightarrow> rat" where
  "calculateUnitConfidence unit patternIndex = 8 / 10 + of_nat patternIndex * (5 / 100)"

definition calculateTrackingConfidence :: "jstring \<Rightarrow> string \<Rightarrow> rat" where
  "calculateTrackingConfidence trackingNumber carrier =
     (let knownCarriers = [''UPS'', ''FedEx'', ''USPS'', ''DHL'', ''Royal Mail'', ''Canada Post''];
          baseConfidence = (if carrier \<in> set knownCarriers then 9 / 10 else 7 / 10)
      in if length trackingNumber \<ge> 10 \<and> length trackingNumber \<le> 25
         then min (baseConfidence + 1 / 10) (95 / 100)
         else baseConfidence)"

definition calculatePostalCodeConfidence :: "jstring \<Rightarrow> nat \<Rightarrow> rat" where
  "calculatePostalCodeConfidence postalCode patternIndex =
     (let baseConfidence = 7 / 10 + of_nat patternIndex * (2 / 100) in
      if length postalCode \<ge> 4 \<and> length postalCode \<le> 10
      then min (baseConfidence + 2 / 10) (95 / 100)
      else baseConfidence)"

section \<open>Currency metadata\<close>

text \<open>The code units of the dollar, euro, pound and yen signs.\<close>

definition extractCurrencySymbol :: "jstring \<Rightarrow> jstring" where
  "extractCurrencySymbol currency =
     (case find (\<lambda>symbol. includes_str currency symbol) [[36], [8364], [163], [165]] of
        None \<Rightarrow> [] | Some symbol \<Rightarrow> symbol)"

definition extractCurrencyCode :: "jstring \<Rightarrow> jstring option" where
  "extractCurrencyCode currency =
     find (\<lambda>code. includes_str currency code)
       (map str [''USD'', ''EUR'', ''GBP'', ''JPY'', ''CAD'', ''AUD'', ''CHF'', ''CNY'', ''INR'',
         ''BRL''])"

definition getCurrencyCodeFromSymbol :: "jstring \<Rightarrow> jstring" where
  "getCurrencyCodeFromSymbol symbol =
     (case map_of
        [([36], str ''USD''), ([8364], str ''EUR''), ([163], str ''GBP''), ([165], str ''JPY''),
         ([8377], str ''INR''), ([8381], str ''RUB''), ([8361], str ''KRW''),
         ([8362], str ''ILS'')] symbol of
        None \<Rightarrow> str ''USD'' | Some code \<Rightarrow> code)"


section \<open>The regular-expression literals of the engine\<close>

subsection \<open>\<open>detectEmails\<close>\<close>

definition email_local :: regex where
  "email_local =
     many1 (Cls ([rng CHR ''A'' CHR ''Z'', rng CHR ''a'' CHR ''z'', rng CHR ''0'' CHR ''9'']
       @ chs ''._%+-''))"

definition email_host :: regex where
  "email_host =
     many1 (Cls ([rng CHR ''A'' CHR ''Z'', rng CHR ''a'' CHR ''z'', rng CHR ''0'' CHR ''9'']
       @ chs ''.-''))"

text \<open>\<open>[A-Z|a-z]{2,}\<close>: the bar is a member of the class.\<close>

definition email_label :: regex where
  "email_label = atleast 2 (Cls [rng CHR ''A'' CHR ''Z'', ch CHR ''|'', rng CHR ''a'' CHR ''z''])"

definition emailPatterns :: "RegExp list" where
  "emailPatterns =
    [re_g (seqs [WordB, email_local, lit ''@'', email_host, lit ''.'', email_label, WordB]),
     re_g (seqs [WordB, email_local, lit ''@'', email_host, lit ''.'', email_label,
                 lit ''.'', email_label, WordB]),
     re_g (seqs [WordB, email_local, lit ''@'', email_host, lit ''.'', email_label,
                 lit ''.'', email_label, lit ''.'', email_label, WordB])]"

subsection \<open>\<open>detectPhoneNumbers\<close>\<close>

text \<open>\<open>[-.\s]?\<close>\<close>

definition sepq :: regex where
  "sepq = opt (Cls (chs ''-.'' @ [Space]))"

text \<open>\<open>(?:\+?1[-.\s]?)?\<close>\<close>

definition nanp_prefix :: regex where
  "nanp_prefix = opt (seqs [opt (lit ''+''), lit ''1'', sepq])"

definition phonePatterns :: "RegExp list" where
  "phonePatterns =
    [re_g (seqs [WordB, nanp_prefix, opt (lit ''(''), exactly 3 d09, opt (lit '')''), sepq,
                 exactly 3 d09, sepq, exactly 4 d09, WordB]),
     re_g (seqs [WordB, nanp_prefix, exactly 3 d09, sepq, exactly 3 d09, sepq, exactly 4 d09,
                 WordB]),
     re_g (seqs [WordB, opt (seqs [opt (lit ''+''), between 1 3 d09, sepq]), between 4 5 d09,
                 sepq, between 4 5 d09, WordB]),
     re_g (seqs [WordB, lit ''+'', between 1 4 d09, sepq, between 1 4 d09, sepq,
                 between 1 4 d09, sepq, between 1 4 d09, WordB]),
     re_g (seqs [WordB, Alt (lit ''+44'') (lit ''0''), between 2 4 d09, sepq, between 3 4 d09,
                 sepq, between 3 4 d09, WordB]),
     re_g (seqs [WordB, Alt (lit ''+33'') (lit ''0''), between 1 2 d09, sepq, between 2 3 d09,
                 sepq, between 2 3 d09, sepq, between 2 3 d09, WordB]),
     re_g (seqs [WordB, Alt (lit ''+49'') (lit ''0''), between 2 4 d09, sepq, between 3 4 d09,
                 sepq, between 3 4 d09, WordB]),
     re_g (seqs [WordB, lit ''+'', between 1 4 d09, sepq, between 4 15 d09, WordB])]"

subsection \<open>\<open>PATTERN_REGEX.URL\<close> of the constants module\<close>

definition PATTERN_REGEX_URL :: RegExp where
  "PATTERN_REGEX_URL =
     re_plain (seqs [Bol, lit ''http'', opt (lit ''s''), lit ''://'', opt (lit ''www.''),
       between 1 256
         (Cls ([ch CHR ''-'', rng CHR ''a'' CHR ''z'', rng CHR ''A'' CHR ''Z'',
                rng CHR ''0'' CHR ''9''] @ chs ''@:%._+~#='')),
       lit ''.'',
       between 1 6
         (Cls ([rng CHR ''a'' CHR ''z'', rng CHR ''A'' CHR ''Z'', rng CHR ''0'' CHR ''9'']
            @ chs ''()'')),
       WordB,
       many0
         (Cls ([ch CHR ''-'', rng CHR ''a'' CHR ''z'', rng CHR ''A'' CHR ''Z'',
                rng CHR ''0'' CHR ''9''] @ chs ''()@:%_+.~#?&//='')),
       Eol])"

subsection \<open>\<open>trackingPatterns\<close>\<close>

definition anchored :: "regex \<Rightarrow> regex" where
  "anchored r = seqs [Bol, r, Eol]"

definition digits_only :: "nat \<Rightarrow> regex" where
  "digits_only k = anchored (exactly k d09)"

definition alnum :: regex where
  "alnum = Cls [rng CHR ''0'' CHR ''9'', rng CHR ''A'' CHR ''Z'']"

text \<open>\<open>^1Z[0-9A-Z]{16}$\<close> and \<open>^[A-Z]{2}[0-9]{9}[A-Z]{2}$\<close>\<close>

definition ups_shape :: regex where
  "ups_shape = anchored (seqs [lit ''1Z'', exactly 16 alnum])"

definition s10_shape :: regex where
  "s10_shape = anchored (seqs [exactly 2 AZ, exactly 9 d09, exactly 2 AZ])"

definition trackingPatterns_init :: "(string \<times> RegExp) list" where
  "trackingPatterns_init =
    [(''UPS'', re_plain ups_shape),
     (''FedEx'', re_plain (alts [digits_only 12, digits_only 15, digits_only 22])),
     (''USPS'', re_plain (alts [digits_only 20, digits_only 22, s10_shape])),
     (''DHL'', re_plain (alts [digits_only 10, digits_only 12, digits_only 14])),
     (''Royal Mail'', re_plain s10_shape),
     (''Canada Post'', re_plain (alts [digits_only 16, s10_shape])),
     (''Australia Post'', re_plain (alts [digits_only 13, s10_shape])),
     (''Deutsche Post'', re_plain (alts [digits_only 14, digits_only 16])),
     (''La Poste'', re_plain (alts [digits_only 13, digits_only 15])),
     (''Correos'', re_plain (alts [digits_only 14, digits_only 16])),
     (''PostNL'', re_plain (alts [digits_only 14, digits_only 16])),
     (''Swiss Post'', re_plain (alts [digits_only 13, digits_only 15])),
     (''Amazon'', re_plain (alts [anchored (seqs [lit ''TBA'', exactly 10 d09]), ups_shape])),
     (''eBay'', re_plain (alts [digits_only 12, digits_only 15, digits_only 20])),
     (''AliExpress'', re_plain (alts [digits_only 13, digits_only 15, digits_only 17])),
     (''Generic'', re_plain (anchored (between 10 25 alnum)))]"

subsection \<open>\<open>addressPatterns\<close> and \<open>internationalAddressPatterns\<close>\<close>

text \<open>\<open>[A-Za-z\s]+\<close>\<close>

definition letters_sp :: regex where
  "letters_sp = many1 (Cls [rng CHR ''A'' CHR ''Z'', rng CHR ''a'' CHR ''z'', Space])"

definition us_suffixes :: "string list" where
  "us_suffixes =
    [''Street'', ''St'', ''Avenue'', ''Ave'', ''Road'', ''Rd'', ''Boulevard'', ''Blvd'', ''Drive'',
     ''Dr'', ''Lane'', ''Ln'', ''Court'', ''Ct'', ''Place'', ''Pl'', ''Way'', ''Terrace'', ''Ter'']"

definition uk_suffixes :: "string list" where
  "uk_suffixes =
     us_suffixes @ [''Close'', ''Crescent'', ''Grove'', ''Hill'', ''Mews'', ''Park'', ''Row'',
       ''Square'', ''Walk'']"

text \<open>
  \<open>(?:stra\<ss>e|strasse|straat|rue|calle|via|ulica|utca)\<close>; the sharp s is code unit 223.
\<close>

definition eu_street :: regex where
  "eu_street =
     alts [seqs [lit ''stra'', cu 223, lit ''e''], lit ''strasse'', lit ''straat'', lit ''rue'',
           lit ''calle'', lit ''via'', lit ''ulica'', lit ''utca'']"

definition comma :: regex where
  "comma = seqs [ws0, lit '','', ws0]"

definition addressPatterns_init :: "RegExp list" where
  "addressPatterns_init =
    [re_i (seqs [WordB, dplus, ws1, letters_sp, words us_suffixes, WordB]),
     re_i (seqs [WordB, letters_sp, words us_suffixes, ws1, dplus, WordB]),
     re_i (seqs [WordB, dplus, ws1, letters_sp, words us_suffixes, ws0, lit '','', ws0,
                 letters_sp, lit '','', ws0, exactly 2 AZ, ws1, exactly 5 digit,
                 opt (seqs [lit ''-'', exactly 4 digit]), WordB]),
     re_i (seqs [WordB, dplus, ws1, letters_sp, words uk_suffixes, WordB]),
     re_i (seqs [WordB, letters_sp, words uk_suffixes, ws1, dplus, WordB]),
     re_gi (seqs [WordB, letters_sp, eu_street, ws1, dplus,
                  opt (Cls [rng CHR ''a'' CHR ''z'']), WordB]),
     re_gi (seqs [WordB, dplus, ws1, letters_sp, eu_street, WordB]),
     re_gi (seqs [WordB, dplus, ws1, letters_sp, comma, letters_sp, comma, letters_sp, comma,
                  between 4 5 digit, WordB]),
     re_gi (seqs [WordB, letters_sp, ws1, dplus, comma, letters_sp, comma, letters_sp, comma,
                  between 4 5 digit, WordB])]"

definition internationalAddressPatterns_init :: "RegExp list" where
  "internationalAddressPatterns_init =
    [re_gi (seqs [WordB, between 1 2 AZ, between 1 2 digit, ws0, digit, exactly 2 AZ, WordB]),
     re_gi (seqs [WordB, exactly 5 digit, opt (seqs [lit ''-'', exactly 4 digit]), WordB]),
     re_gi (seqs [WordB, AZ, digit, AZ, opt space, digit, AZ, digit, WordB]),
     re_gi (seqs [WordB, exactly 4 digit, opt space, exactly 2 AZ, WordB]),
     re_gi (seqs [WordB, exactly 5 digit, WordB]),
     re_gi (seqs [WordB, exactly 4 digit, WordB]),
     re_gi (seqs [WordB, exactly 3 digit, opt space, exactly 2 digit, WordB]),
     re_gi (seqs [WordB, exactly 6 digit, WordB]),
     re_gi (seqs [WordB, exactly 4 digit, WordB]),
     re_gi (seqs [WordB, exactly 3 digit, lit ''-'', exactly 4 digit, WordB])]"

subsection \<open>\<open>dateTimePatterns\<close>\<close>

definition month_names :: regex where
  "month_names =
     words [''Jan'', ''Feb'', ''Mar'', ''Apr'', ''May'', ''Jun'', ''Jul'', ''Aug'', ''Sep'', ''Oct'',
            ''Nov'', ''Dec'']"

definition weekday :: regex where
  "weekday =
     words [''Monday'', ''Tuesday'', ''Wednesday'', ''Thursday'', ''Friday'', ''Saturday'',
            ''Sunday'']"

text \<open>\<open>(?:at\s+)?\<close> and \<open>\d{1,2}:(?:\d{2})?\s*(?:AM|PM|am|pm)?\<close>\<close>

definition at_opt :: regex where
  "at_opt = opt (seqs [lit ''at'', ws1])"

definition ampm_opt :: regex where
  "ampm_opt = opt (words [''AM'', ''PM'', ''am'', ''pm''])"

definition clock :: regex where
  "clock = seqs [between 1 2 digit, lit '':'', opt (exactly 2 digit), ws0, ampm_opt]"

definition duration_unit :: regex where
  "duration_unit =
     alts [lit_q ''minutes'', lit_q ''mins'', lit_q ''hours'', lit_q ''days'', lit_q ''weeks'',
           lit_q ''months'', lit_q ''years'']"

definition dateTimePatterns_init :: "RegExp list" where
  "dateTimePatterns_init =
    [re_i (seqs [WordB, month_names, ws1, between 1 2 digit, opt (lit '',''), ws1,
                 exactly 4 digit, WordB]),
     re_plain (seqs [WordB, between 1 2 digit, lit ''/'', between 1 2 digit, lit ''/'',
                     between 2 4 digit, WordB]),
     re_plain (seqs [WordB, between 1 2 digit, lit ''-'', between 1 2 digit, lit ''-'',
                     between 2 4 digit, WordB]),
     re_plain (seqs [WordB, exactly 4 digit, lit ''-'', between 1 2 digit, lit ''-'',
                     between 1 2 digit, WordB]),
     re_i (seqs [WordB, weekday, ws1, at_opt, clock, WordB]),
     re_i (seqs [WordB, words [''Today'', ''Tomorrow'', ''Yesterday''], ws1, at_opt, clock, WordB]),
     re_i (seqs [WordB, words [''Next'', ''Last''], ws1, weekday, WordB]),
     re_i (seqs [WordB, words [''This'', ''Next'', ''Last''], ws1,
                 words [''week'', ''month'', ''year''], WordB]),
     re_i (seqs [WordB, opt (seqs [lit ''in'', ws1]), dplus, ws1, duration_unit, ws1,
                 alts [seqs [lit ''from'', ws1, lit ''now''], lit ''ago'', lit ''later''], WordB]),
     re_i (seqs [WordB, at_opt, between 1 2 digit, lit '':'', exactly 2 digit, ws0, ampm_opt,
                 WordB]),
     re_i (seqs [WordB, words [''noon'', ''midnight'', ''midday''], WordB]),
     re_plain (seqs [WordB, exactly 4 digit, lit ''-'', exactly 2 digit, lit ''-'',
                     exactly 2 digit, lit ''T'', exactly 2 digit, lit '':'', exactly 2 digit,
                     lit '':'', exactly 2 digit,
                     opt (Alt (lit ''Z'')
                       (seqs [Cls (chs ''+-''), exactly 2 digit, lit '':'', exactly 2 digit])),
                     WordB]),
     re_plain (seqs [WordB, exactly 2 digit, lit ''.'', exactly 2 digit, lit ''.'',
                     exactly 4 digit, WordB]),
     re_plain (seqs [WordB, exactly 2 digit, lit ''/'', exactly 2 digit, lit ''/'',
                     exactly 4 digit, WordB]),
     re_i (seqs [WordB, words [''meeting'', ''appointment'', ''call'', ''event''], ws1,
                 opt (seqs [lit ''on'', ws1]), weekday, ws1, at_opt, clock, WordB]),
     re_i (seqs [WordB, opt (seqs [lit ''team'', ws1]), words [''meeting'', ''standup'', ''review''],
                 ws1, opt (seqs [lit ''every'', ws1]), weekday, ws1, at_opt, clock, WordB])]"

subsection \<open>\<open>currencyPatterns\<close>\<close>

text \<open>\<open>(?:\.\d{2})?\<close>, and a currency sign followed by \<open>[\d,]+(?:\.\d{2})?\<close>\<close>

definition cents_opt :: regex where
  "cents_opt = opt (seqs [lit ''.'', exactly 2 digit])"

definition symbol_amount :: "nat \<Rightarrow> RegExp" where
  "symbol_amount sign = re_g (seqs [cu sign, many1 (Cls [Digit, ch CHR '','']), cents_opt])"

definition currency_codes :: regex where
  "currency_codes =
     words [''USD'', ''EUR'', ''GBP'', ''JPY'', ''CAD'', ''AUD'', ''CHF'', ''CNY'', ''INR'', ''BRL'']"

definition currencyPatterns_init :: "RegExp list" where
  "currencyPatterns_init =
    [symbol_amount 36, symbol_amount 8364, symbol_amount 163, symbol_amount 165,
     symbol_amount 8377, symbol_amount 8381, symbol_amount 8361, symbol_amount 8362,
     re_gi (seqs [WordB, currency_codes, ws1, many1 (Cls [Digit, ch CHR '','']), cents_opt,
                  WordB]),
     re_gi (seqs [WordB, many1 (Cls [Digit, ch CHR '','']), cents_opt, ws0,
                  alts [lit_q ''dollars'', lit_q ''euros'', lit_q ''pounds'', lit ''yen'',
                        lit_q ''rupees'', lit_q ''rubles'', lit ''won'', lit_q ''shekels''],
                  WordB]),
     re_gi (seqs [WordB, many1 (Cls [Digit, Space, ch CHR '','']), cents_opt, ws0,
                  currency_codes, WordB]),
     re_gi (seqs [WordB, many1 (Cls [Digit, Space, ch CHR '','']), cents_opt, ws0,
                  exactly 3 AZ, WordB]),
     re_gi (seqs [WordB, many1 (Cls [Digit, Space, ch CHR ''.'']),
                  opt (seqs [lit '','', exactly 2 digit]), ws0, exactly 3 AZ, WordB])]"

subsection \<open>\<open>unitPatterns\<close>\<close>

text \<open>\<open>\b\d+(?:\.\d+)?\s*(?:...)\b\<close> with the flags \<open>gi\<close>\<close>

definition quantity_of :: "regex list \<Rightarrow> RegExp" where
  "quantity_of units =
     re_gi (seqs [WordB, dplus, opt (seqs [lit ''.'', dplus]), ws0, alts units, WordB])"

definition unitPatterns_init :: "RegExp list" where
  "unitPatterns_init =
    [quantity_of [lit ''kg'', lit_q ''kilograms'', lit ''lb'', lit_q ''pounds'', lit ''g'',
                  lit_q ''grams'', lit ''oz'', lit_q ''ounces'', lit ''ton'', lit_q ''tons'',
                  lit ''stone'', lit_q ''stones''],
     quantity_of [lit ''km'', lit_q ''kilometers'', lit ''mi'', lit_q ''miles'', lit ''m'',
                  lit_q ''meters'', lit ''ft'', lit_q ''feet'', lit ''in'', lit_q ''inches'',
                  lit ''cm'', lit_q ''centimeters'', lit ''mm'', lit_q ''millimeters'', lit ''yd'',
                  lit_q ''yards''],
     quantity_of [lit ''L'', lit_q ''liters'', lit ''gal'', lit_q ''gallons'', lit ''ml'',
                  lit_q ''milliliters'', seqs [lit ''fl'', ws0, lit ''oz''],
                  seqs [lit ''fluid'', ws0, lit_q ''ounces''], lit ''pt'', lit_q ''pints'',
                  lit ''qt'', lit_q ''quarts'', lit ''cup'', lit_q ''cups''],
     quantity_of [seqs [cu 176, lit ''C''], seqs [cu 176, lit ''F''], lit ''celsius'',
                  lit ''fahrenheit'', lit ''kelvin''],
     quantity_of [seqs [lit ''sq'', ws0, lit ''ft''], seqs [lit ''square'', ws0, lit_q ''feet''],
                  seqs [lit ''sq'', ws0, lit ''m''], seqs [lit ''square'', ws0, lit_q ''meters''],
                  lit_q ''acres'', lit_q ''hectares''],
     quantity_of [lit ''km/h'', lit ''mph'', lit ''m/s'', lit_q ''knots''],
     quantity_of [lit ''KB'', lit ''MB'', lit ''GB'', lit ''TB'', lit_q ''kilobytes'',
                  lit_q ''megabytes'', lit_q ''gigabytes'', lit_q ''terabytes''],
     quantity_of [lit_q ''seconds'', lit_q ''minutes'', lit_q ''hours'', lit_q ''days'',
                  lit_q ''weeks'', lit_q ''months'', lit_q ''years'']]"


section \<open>Pattern recognition engine\<close>

record PatternRecognitionEngine =
  engine_isInitialized :: bool
  addressPatterns :: "RegExp list"
  dateTimePatterns :: "RegExp list"
  currencyPatterns :: "RegExp list"
  unitPatterns :: "RegExp list"
  trackingPatterns :: "(string \<times> RegExp) list"
  internationalAddressPatterns :: "RegExp list"

definition new_PatternRecognitionEngine :: PatternRecognitionEngine where
  "new_PatternRecognitionEngine =
     \<lparr>engine_isInitialized = False, addressPatterns = [], dateTimePatterns = [],
      currencyPatterns = [], unitPatterns = [], trackingPatterns = [],
      internationalAddressPatterns = []\<rparr>"

definition initializePatterns :: "PatternRecognitionEngine \<Rightarrow> PatternRecognitionEngine" where
  "initializePatterns s =
     s\<lparr>addressPatterns := addressPatterns_init,
       internationalAddressPatterns := internationalAddressPatterns_init,
       dateTimePatterns := dateTimePatterns_init,
       currencyPatterns := currencyPatterns_init,
       unitPatterns := unitPatterns_init,
       trackingPatterns := trackingPatterns_init\<rparr>"

definition engine_initialize :: "PatternRecognitionEngine \<Rightarrow> PatternRecognitionEngine" where
  "engine_initialize s =
     (if engine_isInitialized s then s
      else (initializePatterns s)\<lparr>engine_isInitialized := True\<rparr>)"

definition engine_cleanup :: "PatternRecognitionEngine \<Rightarrow> PatternRecognitionEngine" where
  "engine_cleanup s = s\<lparr>engine_isInitialized := False\<rparr>"

text \<open>The object literal pushed by the detectors.\<close>

definition mk_match ::
  "PatternType \<Rightarrow> jstring \<Rightarrow> rat \<Rightarrow> nat \<Rightarrow> (string \<times> jstring) list \<Rightarrow> PatternMatch" where
  "mk_match ty m c index md =
     \<lparr>ptype = ty, match = m, confidence = c, startIndex = int index,
      endIndex = int index + int (length m), metadata = md\<rparr>"

subsection \<open>The detectors\<close>

text \<open>
  Each \<open>..._body\<close> is the body of the \<open>while\<close> loop of its detector: it receives
  \<open>match[0]\<close> and \<open>match.index\<close> and yields the matches pushed in that iteration.
\<close>

definition email_body :: "jstring \<Rightarrow> nat \<Rightarrow> PatternMatch list" where
  "email_body email index =
     (let confidence = calculateEmailConfidence email in
      if confidence > 7 / 10
      then [mk_match EMAIL email confidence index
              (entry ''domain'' (at_index (split 64 email) 1)
               @ entry ''localPart'' (at_index (split 64 email) 0))]
      else [])"

definition detectEmails :: "jstring \<Rightarrow> PatternMatch list option" where
  "detectEmails text = forEach_exec (map (\<lambda>pattern. (pattern, email_body)) emailPatterns) text []"

definition phone_body :: "jstring \<Rightarrow> nat \<Rightarrow> PatternMatch list" where
  "phone_body phoneNumber index =
     (let confidence = calculatePhoneConfidence phoneNumber in
      if confidence > 6 / 10 then [mk_match PHONE phoneNumber confidence index []] else [])"

definition detectPhoneNumbers :: "jstring \<Rightarrow> PatternMatch list option" where
  "detectPhoneNumbers text =
     forEach_exec (map (\<lambda>pattern. (pattern, phone_body)) phonePatterns) text []"

definition url_body :: "jstring \<Rightarrow> nat \<Rightarrow> PatternMatch list" where
  "url_body url index =
     (let confidence = calculateUrlConfidence url in
      if confidence > 8 / 10 then [mk_match URL url confidence index []] else [])"

definition detectUrls :: "jstring \<Rightarrow> PatternMatch list option" where
  "detectUrls text = exec_while PATTERN_REGEX_URL text url_body 0 []"

definition tracking_body :: "string \<Rightarrow> jstring \<Rightarrow> nat \<Rightarrow> PatternMatch list" where
  "tracking_body carrier trackingNumber index =
     (let confidence = calculateTrackingConfidence trackingNumber carrier in
      if confidence > 8 / 10
      then [mk_match TRACKING_NUMBER trackingNumber confidence index
              [(''carrier'', toLowerCase (str carrier))]]
      else [])"

definition detectTrackingNumbers ::
  "PatternRecognitionEngine \<Rightarrow> jstring \<Rightarrow> PatternMatch list option" where
  "detectTrackingNumbers s text =
     forEach_exec (map (\<lambda>(carrier, pattern). (pattern, tracking_body carrier))
       (trackingPatterns s)) text []"

definition address_body :: "nat \<Rightarrow> jstring \<Rightarrow> nat \<Rightarrow> PatternMatch list" where
  "address_body patternIndex address index =
     (let confidence = calculateAddressConfidence address patternIndex in
      if confidence > 6 / 10 then [mk_match ADDRESS address confidence index []] else [])"

definition postal_body :: "nat \<Rightarrow> jstring \<Rightarrow> nat \<Rightarrow> PatternMatch list" where
  "postal_body patternIndex postalCode index =
     (let confidence = calculatePostalCodeConfidence postalCode patternIndex in
      if confidence > 7 / 10 then [mk_match ADDRESS postalCode confidence index []] else [])"

text \<open>\<open>patterns.forEach((pattern, index) => ...)\<close>: every pattern with its index.\<close>

definition indexed ::
  "RegExp list \<Rightarrow> (nat \<Rightarrow> jstring \<Rightarrow> nat \<Rightarrow> PatternMatch list)
     \<Rightarrow> (RegExp \<times> (jstring \<Rightarrow> nat \<Rightarrow> PatternMatch list)) list" where
  "indexed patterns body = map (\<lambda>(index, pattern). (pattern, body index)) (enumerate 0 patterns)"

definition detectAddresses ::
  "PatternRecognitionEngine \<Rightarrow> jstring \<Rightarrow> PatternMatch list option" where
  "detectAddresses s text =
     (case forEach_exec (indexed (addressPatterns s) address_body) text [] of
        None \<Rightarrow> None
      | Some matches \<Rightarrow>
          forEach_exec (indexed (internationalAddressPatterns s) postal_body) text matches)"

definition dateTime_body :: "nat \<Rightarrow> jstring \<Rightarrow> nat \<Rightarrow> PatternMatch list" where
  "dateTime_body patternIndex dateTime index =
     (let confidence = calculateDateTimeConfidence dateTime patternIndex in
      if confidence > 7 / 10 then [mk_match DATE_TIME dateTime confidence index []] else [])"

definition detectDateTime ::
  "PatternRecognitionEngine \<Rightarrow> jstring \<Rightarrow> PatternMatch list option" where
  "detectDateTime s text = forEach_exec (indexed (dateTimePatterns s) dateTime_body) text []"

definition currency_body :: "nat \<Rightarrow> jstring \<Rightarrow> nat \<Rightarrow> PatternMatch list" where
  "currency_body patternIndex currency index =
     (let confidence = calculateCurrencyConfidence currency patternIndex in
      if confidence > 8 / 10
      then
        let symbol = extractCurrencySymbol currency;
            code = extractCurrencyCode currency
        in [mk_match CURRENCY currency confidence index
              [(''symbol'', symbol),
               (''code'', case code of Some c \<Rightarrow> c | None \<Rightarrow> getCurrencyCodeFromSymbol symbol)]]
      else [])"

definition detectCurrency ::
  "PatternRecognitionEngine \<Rightarrow> jstring \<Rightarrow> PatternMatch list option" where
  "detectCurrency s text = forEach_exec (indexed (currencyPatterns s) currency_body) text []"

definition unit_body :: "nat \<Rightarrow> jstring \<Rightarrow> nat \<Rightarrow> PatternMatch list" where
  "unit_body patternIndex unit index =
     (let confidence = calculateUnitConfidence unit patternIndex in
      if confidence > 8 / 10 then [mk_match UNIT unit confidence index []] else [])"

definition detectUnits ::
  "PatternRecognitionEngine \<Rightarrow> jstring \<Rightarrow> PatternMatch list option" where
  "detectUnits s text = forEach_exec (indexed (unitPatterns s) unit_body) text []"

subsection \<open>\<open>detectPatterns\<close>\<close>

text \<open>
  How a call ends: it returns a value or it throws.  A call that does neither (it runs
  forever) is \<open>None\<close> in the option type around the outcome.
\<close>

datatype 'a outcome = Returns 'a | Throws string

type_synonym detector = "jstring \<Rightarrow> PatternMatch list outcome option"

text \<open>
  The statements of the \<open>try\<close> block up to the call of the resolver: the detectors run
  in order and their matches are appended to \<open>patterns\<close>; the first one that throws
  ends the block.
\<close>

fun run_detectors ::
  "detector list \<Rightarrow> jstring \<Rightarrow> PatternMatch list \<Rightarrow> PatternMatch list outcome option" where
  "run_detectors [] text patterns = Some (Returns patterns)"
| "run_detectors (d # ds) text patterns =
     (case d text of
        None \<Rightarrow> None
      | Some (Throws e) \<Rightarrow> Some (Throws e)
      | Some (Returns found) \<Rightarrow> run_detectors ds text (patterns @ found))"

text \<open>
  The body of \<open>detectPatterns\<close> over the detector methods it calls: the initialization
  guard, then \<open>try { ... return sortedPatterns } catch (error) { return [] }\<close>.
\<close>

definition detect_with ::
  "bool \<Rightarrow> detector list \<Rightarrow> jstring \<Rightarrow> PatternMatch list outcome option" where
  "detect_with initialized detectors text =
     (if \<not> initialized then Some (Throws ''PatternRecognitionEngine not initialized'')
      else
        (case run_detectors detectors text [] of
           None \<Rightarrow> None
         | Some (Throws e) \<Rightarrow> Some (Returns [])
         | Some (Returns patterns) \<Rightarrow> Some (Returns (sortAndDeduplicatePatterns patterns))))"

text \<open>A detector of the engine as a callee: it returns its matches or runs forever.\<close>

definition as_detector :: "(jstring \<Rightarrow> PatternMatch list option) \<Rightarrow> detector" where
  "as_detector f text = map_option Returns (f text)"

definition engine_detectors :: "PatternRecognitionEngine \<Rightarrow> detector list" where
  "engine_detectors s =
     [as_detector detectEmails, as_detector detectPhoneNumbers, as_detector detectUrls,
      as_detector (detectTrackingNumbers s), as_detector (detectAddresses s), as_detector (detectDateTime s),
      as_detector (detectCurrency s), as_detector (detectUnits s)]"

definition detectPatterns ::
  "PatternRecognitionEngine \<Rightarrow> jstring \<Rightarrow> PatternMatch list outcome option" where
  "detectPatterns s text = detect_with (engine_isInitialized s) (engine_detectors s) text"

text \<open>The engine after \<open>initialize()\<close> on a fresh instance.\<close>

definition engine0 :: PatternRecognitionEngine where
  "engine0 = engine_initialize new_PatternRecognitionEngine"


section \<open>Auxiliary notions for the proofs\<close>

text \<open>A catalog with every \<open>enabled\<close> flag cleared: what no availability update changes.\<close>

definition erase :: "(ActionType, QuickAction) jsmap \<Rightarrow> (ActionType, QuickAction) jsmap" where
  "erase m = map (\<lambda>(k, a). (k, a\<lparr>enabled := False\<rparr>)) m"

definition catalog_inv :: "ActionButtonManager \<Rightarrow> bool" where
  "catalog_inv s \<longleftrightarrow> isInitialized s \<and> erase (availableActions s) = erase factory_table"

text \<open>Three candidates for the resolver, the first two overlapping.\<close>

definition sample_candidates :: "PatternMatch list" where
  "sample_candidates =
     [pm EMAIL (9 / 10) 0 16, pm CURRENCY (14 / 10) 12 16, pm UNIT (85 / 100) 20 24]"

text \<open>
  Two detector methods as a test double would install them: one returns a match, the
  other throws.
\<close>

definition returning_detector :: detector where
  "returning_detector text = Some (Returns [pm EMAIL (9 / 10) 0 16])"

definition throwing_detector :: detector where
  "throwing_detector text = Some (Throws ''detector failed'')"

text \<open>The texts of the examples.\<close>

definition ups_number :: jstring where "ups_number = str ''1Z999AA10123456784''"
definition https_url :: jstring where "https_url = str ''https://example.com''"
definition email_text :: jstring where "email_text = str ''test@example.com''"
definition dollar_text :: jstring where "dollar_text = str ''$100''"
definition euro_text :: jstring where "euro_text = 8364 # str ''100''"
definition usd_text :: jstring where "usd_text = str ''USD 100''"
definition plain_text :: jstring where "plain_text = str ''hi''"
definition unit_text :: jstring where "unit_text = str ''2 GB''"
definition dotted_url :: jstring where "dotted_url = str ''http://a..bc''"

text \<open>Matches that the detectors produce on these texts.\<close>

definition email_candidate :: PatternMatch where
  "email_candidate =
     mk_match EMAIL (str ''test@example.com'') (9 / 10) 0
       [(''domain'', str ''example.com''), (''localPart'', str ''test'')]"

definition dotcom_candidate :: PatternMatch where
  "dotcom_candidate =
     mk_match CURRENCY (str ''.com'') (14 / 10) 12 [(''symbol'', []), (''code'', str ''USD'')]"

definition euro_candidate :: PatternMatch where
  "euro_candidate =
     mk_match CURRENCY (8364 # str ''100'') (85 / 100) 0
       [(''symbol'', [8364]), (''code'', str ''EUR'')]"

definition gb_candidate :: PatternMatch where
  "gb_candidate = mk_match UNIT (str ''2 GB'') (11 / 10) 0 []"

definition usd_candidate :: PatternMatch where
  "usd_candidate =
     mk_match CURRENCY (str ''USD 100'') (12 / 10) 0 [(''symbol'', []), (''code'', str ''USD'')]"

section \<open>Action resolution\<close>

lemma initial_catalog:
  "availableActions (initialize new_ActionButtonManager) = factory_table"
  by (simp add: initialize_def new_ActionButtonManager_def createDefaultActions_def
      initializeActionFactories_def factory_table_def)

lemma initial_initialized: "isInitialized (initialize new_ActionButtonManager)"
  by (simp add: initialize_def new_ActionButtonManager_def createDefaultActions_def
      initializeActionFactories_def)

lemma erase_map_set:
  "map_of m t = Some a \<Longrightarrow> erase (map_set m t (a\<lparr>enabled := e\<rparr>)) = erase m"
  by (induction m) (auto simp: erase_def)

lemma erase_prefs:
  "erase (map (\<lambda>(k, a). (k, a\<lparr>enabled := f a\<rparr>)) m) = erase m"
  by (induction m) (auto simp: erase_def)

lemma reachable_inv: "reachable s \<Longrightarrow> catalog_inv s"
proof (induction rule: reachable.induct)
  case r_init
  show ?case by (simp add: catalog_inv_def initial_catalog initial_initialized)
next
  case (r_update s t e)
  then show ?case
    by (auto simp: catalog_inv_def updateActionAvailability_def map_get_def erase_map_set
        split: option.splits)
next
  case (r_prefs s ids)
  then show ?case
    by (simp add: catalog_inv_def updateActionAvailabilityFromPreferences_def erase_prefs)
qed

lemma find_by_type:
  "\<forall>(k, a) \<in> set m. action_type a = k \<Longrightarrow>
   find (\<lambda>a. action_type a = t) (map snd m) = map_of m t"
  by (induction m) auto

lemma erase_types:
  "(\<forall>(k, a) \<in> set (erase m). action_type a = k) \<longleftrightarrow> (\<forall>(k, a) \<in> set m. action_type a = k)"
  by (induction m) (auto simp: erase_def)

lemma map_of_erase:
  "map_of (erase m) t = map_option (\<lambda>a. a\<lparr>enabled := False\<rparr>) (map_of m t)"
  by (induction m) (auto simp: erase_def)

lemma factory_types: "\<forall>(k, a) \<in> set (erase factory_table). action_type a = k"
  by (simp add: erase_def factory_table_def mk_action_def)

text \<open>
  In a reachable catalog, the entry of a type is the factory's action up to its
  \<open>enabled\<close> flag, and \<open>find\<close> by type on the values returns this same entry.
\<close>

lemma catalog_lookup:
  assumes inv: "catalog_inv s"
    and b: "map_of factory_table t = Some b"
  shows "\<exists>a. map_get (availableActions s) t = Some a
           \<and> find (\<lambda>a. action_type a = t) (map_values (availableActions s)) = Some a
           \<and> action_id a = action_id b \<and> action_type a = action_type b"
proof -
  from inv have e: "erase (availableActions s) = erase factory_table"
    by (simp add: catalog_inv_def)
  have ty: "\<forall>(k, a) \<in> set (availableActions s). action_type a = k"
    using factory_types erase_types [of "availableActions s"] e by simp
  have "map_option (\<lambda>a. a\<lparr>enabled := False\<rparr>) (map_of (availableActions s) t)
        = Some (b\<lparr>enabled := False\<rparr>)"
    using map_of_erase [of "availableActions s" t] map_of_erase [of factory_table t] e b by simp
  then obtain a where a: "map_of (availableActions s) t = Some a"
    and ab: "a\<lparr>enabled := False\<rparr> = b\<lparr>enabled := False\<rparr>"
    by auto
  from ab have "action_id (a\<lparr>enabled := False\<rparr>) = action_id (b\<lparr>enabled := False\<rparr>)"
    and "action_type (a\<lparr>enabled := False\<rparr>) = action_type (b\<lparr>enabled := False\<rparr>)"
    by simp_all
  then have "action_id a = action_id b" "action_type a = action_type b" by simp_all
  with a find_by_type [OF ty, of t] show ?thesis
    by (simp add: map_get_def map_values_def)
qed

lemma copy_entry: "map_of factory_table A_COPY = Some (mk_action ''copy'' ''Copy'' A_COPY True)"
  by (simp add: factory_table_def)

lemma search_entry:
  "map_of factory_table A_SEARCH = Some (mk_action ''search'' ''Search'' A_SEARCH True)"
  by (simp add: factory_table_def)

text \<open>
  C7.  On every catalog reachable from \<open>initialize\<close> by availability updates, resolving
  the empty pattern list returns exactly the COPY action followed by the SEARCH action
  when both are enabled, and the empty list (an ordinary result) when both are disabled.
\<close>

theorem empty_patterns_universal_actions:
  assumes "reachable s"
  shows "(is_enabled s A_COPY \<and> is_enabled s A_SEARCH \<longrightarrow>
            action_ids (getAvailableActions s []) = [''copy'', ''search'']
            \<and> map action_type (getAvailableActions s []) = [A_COPY, A_SEARCH])
       \<and> (\<not> is_enabled s A_COPY \<and> \<not> is_enabled s A_SEARCH \<longrightarrow>
            getAvailableActions s [] = [])"
proof -
  from assms have inv: "catalog_inv s" by (rule reachable_inv)
  then have init: "isInitialized s" by (simp add: catalog_inv_def)
  from catalog_lookup [OF inv copy_entry] obtain c where
    c: "map_get (availableActions s) A_COPY = Some c"
       "find (\<lambda>a. action_type a = A_COPY) (map_values (availableActions s)) = Some c"
       "action_id c = ''copy''" "action_type c = A_COPY"
    by (auto simp: mk_action_def)
  from catalog_lookup [OF inv search_entry] obtain d where
    d: "map_get (availableActions s) A_SEARCH = Some d"
       "find (\<lambda>a. action_type a = A_SEARCH) (map_values (availableActions s)) = Some d"
       "action_id d = ''search''" "action_type d = A_SEARCH"
    by (auto simp: mk_action_def)
  show ?thesis
    using init c d
    by (simp add: getAvailableActions_def is_enabled_def push_if_enabled_def action_ids_def)
qed

theorem empty_patterns_universal_actions_witness:
  "reachable (initialize new_ActionButtonManager)
   \<and> is_enabled (initialize new_ActionButtonManager) A_COPY
   \<and> is_enabled (initialize new_ActionButtonManager) A_SEARCH
   \<and> action_ids (getAvailableActions (initialize new_ActionButtonManager) []) = [''copy'', ''search'']
   \<and> reachable (updateActionAvailabilityFromPreferences (initialize new_ActionButtonManager) [''email''])
   \<and> \<not> is_enabled (updateActionAvailabilityFromPreferences (initialize new_ActionButtonManager) [''email'']) A_COPY
   \<and> \<not> is_enabled (updateActionAvailabilityFromPreferences (initialize new_ActionButtonManager) [''email'']) A_SEARCH
   \<and> getAvailableActions
        (updateActionAvailabilityFromPreferences (initialize new_ActionButtonManager) [''email'']) [] = []"
proof -
  let ?s = "initialize new_ActionButtonManager"
  let ?t = "updateActionAvailabilityFromPreferences ?s [''email'']"
  have r1: "reachable ?s" by (rule r_init)
  have r2: "reachable ?t" by (rule r_prefs [OF r_init])
  have e1: "is_enabled ?s A_COPY \<and> is_enabled ?s A_SEARCH"
    by (simp add: is_enabled_def map_get_def initial_catalog factory_table_def mk_action_def)
  have e2: "\<not> is_enabled ?t A_COPY \<and> \<not> is_enabled ?t A_SEARCH"
    by (simp add: is_enabled_def map_get_def initial_catalog factory_table_def mk_action_def
        updateActionAvailabilityFromPreferences_def)
  from empty_patterns_universal_actions [OF r1] empty_patterns_universal_actions [OF r2] r1 r2 e1 e2
  show ?thesis by simp
qed

text \<open>
  C3.  The code at the input of the claim: with every action at its default (CALL and
  MESSAGE both enabled) a PHONE match resolves to COPY, SEARCH and CALL, without
  MESSAGE; with CALL disabled and MESSAGE enabled it resolves to COPY and SEARCH alone.
  \<open>getActionForPattern\<close> returns \<open>callAction || messageAction || null\<close>, a single
  action, under the comment "Return both actions for phone numbers".
\<close>

theorem phone_resolves_to_call_only:
  "action_ids (getAvailableActions (initialize new_ActionButtonManager) [phone_match])
     = [''copy'', ''search'', ''call'']
   \<and> action_ids (getAvailableActions
        (updateActionAvailability (initialize new_ActionButtonManager) A_CALL False) [phone_match])
     = [''copy'', ''search'']"
  by (simp add: getAvailableActions_def initial_catalog initial_initialized factory_table_def
      map_values_def mk_action_def push_if_enabled_def add_pattern_action_def
      getActionForPattern_def phone_match_def map_get_def or_else_def action_ids_def
      updateActionAvailability_def)

text \<open>
  C10.  After initialization the CALENDAR action carries \<open>FEATURE_FLAGS.AI_PARSING\<close>,
  which is false, as its \<open>enabled\<close> flag; so a pattern list that holds one DATE_TIME
  match resolves to the universal actions COPY and SEARCH only.
\<close>

theorem calendar_disabled_by_default:
  "is_enabled (initialize new_ActionButtonManager) A_CALENDAR = FEATURE_FLAGS_AI_PARSING
   \<and> \<not> FEATURE_FLAGS_AI_PARSING
   \<and> (\<forall>p. ptype p = DATE_TIME \<longrightarrow>
        action_ids (getAvailableActions (initialize new_ActionButtonManager) [p])
          = [''copy'', ''search''])"
  by (simp add: getAvailableActions_def initial_catalog initial_initialized factory_table_def
      map_values_def mk_action_def push_if_enabled_def add_pattern_action_def
      getActionForPattern_def map_get_def or_else_def action_ids_def is_enabled_def
      FEATURE_FLAGS_AI_PARSING_def)

theorem calendar_disabled_by_default_witness:
  "ptype date_match = DATE_TIME
   \<and> action_ids (getAvailableActions (initialize new_ActionButtonManager) [date_match])
       = [''copy'', ''search'']"
proof -
  have h: "ptype date_match = DATE_TIME" by (simp add: date_match_def)
  from calendar_disabled_by_default h show ?thesis by blast
qed

section \<open>Conflict resolution\<close>

lemma overlap_sym: "patternsOverlap a b = patternsOverlap b a"
  by (auto simp: patternsOverlap_def)

lemma dedup_keeps_acc: "set acc \<subseteq> set (dedup_loop acc xs)"
proof (induction xs arbitrary: acc)
  case Nil show ?case by simp
next
  case (Cons p ps)
  have "set acc \<subseteq> set (dedup_loop (acc @ [p]) ps)" using Cons [of "acc @ [p]"] by auto
  with Cons [of acc] show ?case by simp
qed

lemma dedup_apart:
  "sorted_wrt apart acc \<Longrightarrow> sorted_wrt apart (dedup_loop acc xs)"
proof (induction xs arbitrary: acc)
  case Nil then show ?case by simp
next
  case (Cons p ps)
  show ?case
  proof (cases "list_ex (\<lambda>e. patternsOverlap p e) acc")
    case True with Cons show ?thesis by simp
  next
    case False
    then have "\<forall>e \<in> set acc. apart e p" by (auto simp: list_ex_iff overlap_sym)
    with Cons.prems have "sorted_wrt apart (acc @ [p])" by (simp add: sorted_wrt_append)
    from Cons.IH [OF this] False show ?thesis by simp
  qed
qed

lemma dedup_sorted:
  "sorted_wrt conf_ge (acc @ xs) \<Longrightarrow> sorted_wrt conf_ge (dedup_loop acc xs)"
proof (induction xs arbitrary: acc)
  case Nil then show ?case by simp
next
  case (Cons p ps)
  from Cons.prems have a: "sorted_wrt conf_ge (acc @ ps)"
    and b: "sorted_wrt conf_ge ((acc @ [p]) @ ps)"
    by (auto simp: sorted_wrt_append)
  from Cons.IH [OF a] Cons.IH [OF b] show ?case by simp
qed

text \<open>
  A candidate the loop drops overlaps an accepted candidate that came before it in the
  sorted order, hence one of at least its confidence.
\<close>

lemma dedup_dropped:
  "sorted_wrt conf_ge (acc @ xs) \<Longrightarrow> p \<in> set xs \<Longrightarrow>
   p \<in> set (dedup_loop acc xs)
   \<or> (\<exists>q \<in> set (dedup_loop acc xs). patternsOverlap p q \<and> confidence p \<le> confidence q)"
proof (induction xs arbitrary: acc)
  case Nil then show ?case by simp
next
  case (Cons x xs)
  from Cons.prems(1) have a: "sorted_wrt conf_ge (acc @ xs)"
    and b: "sorted_wrt conf_ge ((acc @ [x]) @ xs)"
    and c: "\<forall>e \<in> set acc. confidence x \<le> confidence e"
    by (auto simp: sorted_wrt_append)
  show ?case
  proof (cases "list_ex (\<lambda>e. patternsOverlap x e) acc")
    case True
    then obtain e where e: "e \<in> set acc" "patternsOverlap x e" by (auto simp: list_ex_iff)
    show ?thesis
    proof (cases "p = x")
      case True
      from e c dedup_keeps_acc [of acc xs] have
        "e \<in> set (dedup_loop acc xs) \<and> patternsOverlap x e \<and> confidence x \<le> confidence e"
        by auto
      with True \<open>list_ex (\<lambda>e. patternsOverlap x e) acc\<close> show ?thesis by auto
    next
      case False
      with Cons.prems(2) have "p \<in> set xs" by simp
      from Cons.IH [OF a this] \<open>list_ex (\<lambda>e. patternsOverlap x e) acc\<close> show ?thesis by simp
    qed
  next
    case False
    show ?thesis
    proof (cases "p = x")
      case True
      with dedup_keeps_acc [of "acc @ [x]" xs] False show ?thesis by auto
    next
      case neq: False
      with Cons.prems(2) have "p \<in> set xs" by simp
      from Cons.IH [OF b this] False show ?thesis by simp
    qed
  qed
qed

lemma sort_by_confidence_sorted: "sorted_wrt conf_ge (sort_by_confidence ps)"
proof -
  have "sorted (map (\<lambda>p. - confidence p) (sort_key (\<lambda>p. - confidence p) ps))"
    by (rule sorted_sort_key)
  then show ?thesis by (simp add: sort_by_confidence_def sorted_map)
qed

lemma sort_by_confidence_set: "set (sort_by_confidence ps) = set ps"
  by (simp add: sort_by_confidence_def)

text \<open>
  C1.  For every list of candidates, the list returned by \<open>sortAndDeduplicatePatterns\<close>
  has no two entries that overlap under \<open>patternsOverlap\<close>, is ordered by descending
  confidence, and every candidate that is not in it overlaps an entry of it whose
  confidence is at least its own (no candidate is dropped in favour of a kept overlapping
  candidate of strictly lower confidence).
\<close>

theorem resolver_no_overlap_sorted_no_unfair_drop:
  "(\<forall>i j. i < length (sortAndDeduplicatePatterns ps) \<and> j < length (sortAndDeduplicatePatterns ps)
        \<and> i \<noteq> j \<longrightarrow>
        \<not> patternsOverlap (sortAndDeduplicatePatterns ps ! i) (sortAndDeduplicatePatterns ps ! j))
   \<and> (\<forall>i j. i < j \<and> j < length (sortAndDeduplicatePatterns ps) \<longrightarrow>
        confidence (sortAndDeduplicatePatterns ps ! j) \<le> confidence (sortAndDeduplicatePatterns ps ! i))
   \<and> (\<forall>p \<in> set ps. p \<in> set (sortAndDeduplicatePatterns ps)
        \<or> (\<exists>q \<in> set (sortAndDeduplicatePatterns ps).
              patternsOverlap p q \<and> confidence p \<le> confidence q))"
proof -
  let ?r = "sortAndDeduplicatePatterns ps"
  have ap: "sorted_wrt apart ?r"
    unfolding sortAndDeduplicatePatterns_def by (rule dedup_apart) simp
  have so: "sorted_wrt conf_ge ?r"
    unfolding sortAndDeduplicatePatterns_def
    by (rule dedup_sorted) (simp add: sort_by_confidence_sorted)
  have 1: "\<not> patternsOverlap (?r ! i) (?r ! j)" if "i < length ?r" "j < length ?r" "i \<noteq> j" for i j
  proof (cases "i < j")
    case True
    with ap that show ?thesis by (simp add: sorted_wrt_iff_nth_less)
  next
    case False
    with that have "j < i" by simp
    with ap that have "\<not> patternsOverlap (?r ! j) (?r ! i)" by (simp add: sorted_wrt_iff_nth_less)
    then show ?thesis by (simp add: overlap_sym)
  qed
  have 2: "confidence (?r ! j) \<le> confidence (?r ! i)" if "i < j" "j < length ?r" for i j
    using so that by (simp add: sorted_wrt_iff_nth_less)
  have 3: "p \<in> set ?r \<or> (\<exists>q \<in> set ?r. patternsOverlap p q \<and> confidence p \<le> confidence q)"
    if "p \<in> set ps" for p
    unfolding sortAndDeduplicatePatterns_def
    by (rule dedup_dropped) (simp_all add: sort_by_confidence_sorted sort_by_confidence_set that)
  from 1 2 3 show ?thesis by blast
qed

lemma sample_resolved:
  "sortAndDeduplicatePatterns sample_candidates
     = [pm CURRENCY (14 / 10) 12 16, pm UNIT (85 / 100) 20 24]"
  by (simp add: sortAndDeduplicatePatterns_def sort_by_confidence_def pm_def patternsOverlap_def
      sample_candidates_def)

theorem resolver_no_overlap_sorted_no_unfair_drop_witness:
  "(0::nat) < length (sortAndDeduplicatePatterns sample_candidates)
   \<and> (1::nat) < length (sortAndDeduplicatePatterns sample_candidates)
   \<and> \<not> patternsOverlap (sortAndDeduplicatePatterns sample_candidates ! 0)
         (sortAndDeduplicatePatterns sample_candidates ! 1)
   \<and> confidence (sortAndDeduplicatePatterns sample_candidates ! 1)
       \<le> confidence (sortAndDeduplicatePatterns sample_candidates ! 0)
   \<and> pm EMAIL (9 / 10) 0 16 \<in> set sample_candidates
   \<and> pm EMAIL (9 / 10) 0 16 \<notin> set (sortAndDeduplicatePatterns sample_candidates)
   \<and> (\<exists>q \<in> set (sortAndDeduplicatePatterns sample_candidates).
         patternsOverlap (pm EMAIL (9 / 10) 0 16) q
         \<and> confidence (pm EMAIL (9 / 10) 0 16) \<le> confidence q)"
proof -
  have m: "pm EMAIL (9 / 10) 0 16 \<in> set sample_candidates"
    by (simp add: sample_candidates_def)
  have n: "pm EMAIL (9 / 10) 0 16 \<notin> set (sortAndDeduplicatePatterns sample_candidates)"
    by (simp add: sample_resolved pm_def)
  have l: "(0::nat) < length (sortAndDeduplicatePatterns sample_candidates)"
    "(1::nat) < length (sortAndDeduplicatePatterns sample_candidates)"
    by (simp_all add: sample_resolved)
  from resolver_no_overlap_sorted_no_unfair_drop [of sample_candidates] m n l
  show ?thesis by (metis zero_neq_one zero_less_one)
qed

section \<open>The matcher and the loop\<close>

text \<open>
  Every end position lies between the start position and the end of the text: the
  matcher only moves forward, and the guard in the repetition case of \<open>ends\<close> never
  discards a position.
\<close>

lemma ends_bounds:
  "i \<le> length t \<Longrightarrow> j \<in> set (ends ic t r i) \<Longrightarrow> i \<le> j \<and> j \<le> length t"
proof (induction ic t r i arbitrary: j rule: ends.induct)
  case (1 ic t its i)
  then show ?case by (simp add: ends.simps(1) split: if_splits)
next
  case (2 ic t i)
  then show ?case by (simp add: ends.simps(2))
next
  case (3 ic t a b i)
  from "3.prems" obtain k where k: "k \<in> set (ends ic t a i)" and j: "j \<in> set (ends ic t b k)"
    by (auto simp: ends.simps(3))
  from "3.IH"(1) [OF "3.prems"(1) k] have ik: "i \<le> k" "k \<le> length t" by simp_all
  from "3.IH"(2) [OF k ik(2) j] ik show ?case by simp
next
  case (4 ic t a b i)
  from "4.prems" have "j \<in> set (ends ic t a i) \<or> j \<in> set (ends ic t b i)"
    by (simp add: ends.simps(4))
  with "4.IH" "4.prems"(1) show ?case by blast
next
  case (5 ic t i)
  then show ?case by (simp add: ends.simps(5) split: if_splits)
next
  case (6 ic t i)
  then show ?case by (simp add: ends.simps(6) split: if_splits)
next
  case (7 ic t i)
  then show ?case by (simp add: ends.simps(7) split: if_splits)
next
  case (8 ic t m n r i)
  let ?again = "concat (map (\<lambda>j.
              if j < i \<or> length t < j then []
              else if j = i \<and> m = 0 then []
              else ends ic t (Rep (m - 1) (dec_max n) r) j) (ends ic t r i))"
  show ?case
  proof (cases "n = Some 0")
    case True
    with "8.prems" show ?thesis by (simp add: ends.simps(8))
  next
    case False
    from "8.prems"(2) False have "j \<in> set ?again \<or> j = i"
      by (auto simp: ends.simps(8) [of ic t m n r i] Let_def split: if_splits)
    then show ?thesis
    proof
      assume "j = i"
      with "8.prems" show ?thesis by simp
    next
      assume "j \<in> set ?again"
      then obtain k where k: "k \<in> set (ends ic t r i)"
        and g: "\<not> (k < i \<or> length t < k)" "\<not> (k = i \<and> m = 0)"
        and j: "j \<in> set (ends ic t (Rep (m - 1) (dec_max n) r) k)"
        by (auto split: if_splits)
      from g have kt: "k \<le> length t" "i \<le> k" by simp_all
      from "8.IH"(2) [OF False k g(1) g(2) kt(1) j] kt show ?thesis by simp
    qed
  qed
qed

text \<open>
  A loop over an expression without the \<open>g\<close> flag that finds a match never ends:
  \<open>exec\<close> leaves \<open>lastIndex\<close> at 0 and finds the same match again.
\<close>

lemma exec_while_diverges:
  assumes ng: "\<not> global re" and m: "exec re text 0 = Some (s, e)"
  shows "exec_while re text body 0 matches = None"
proof (rule ccontr)
  assume "exec_while re text body 0 matches \<noteq> None"
  then obtain y where y: "exec_while re text body 0 matches = Some y" by auto
  have "\<not> (re = re \<and> text = text \<and> (0::nat) = 0)"
  proof (rule exec_while.raw_induct
      [where P = "\<lambda>re' text' body' li ms y'. \<not> (re' = re \<and> text' = text \<and> li = 0)", OF _ y])
    fix ew :: "RegExp \<Rightarrow> jstring \<Rightarrow> (jstring \<Rightarrow> nat \<Rightarrow> PatternMatch list) \<Rightarrow> nat
      \<Rightarrow> PatternMatch list \<Rightarrow> PatternMatch list option"
    fix re' text' body' li ms y'
    assume IH: "\<And>re' text' body' li ms y.
      ew re' text' body' li ms = Some y \<Longrightarrow> \<not> (re' = re \<and> text' = text \<and> li = 0)"
    assume eq: "(case exec re' text' li of None \<Rightarrow> Some ms
       | Some (s, e) \<Rightarrow> ew re' text' body' (if global re' then e else li)
           (ms @ body' (slice text' s e) s)) = Some y'"
    show "\<not> (re' = re \<and> text' = text \<and> li = 0)"
    proof
      assume a: "re' = re \<and> text' = text \<and> li = 0"
      with eq m ng have "ew re text body' 0 (ms @ body' (slice text s e) s) = Some y'"
        by simp
      from IH [OF this] show False by simp
    qed
  qed
  then show False by simp
qed

section \<open>Detection\<close>

lemma engine0_initialized: "engine_isInitialized engine0"
  by (simp add: engine0_def engine_initialize_def new_PatternRecognitionEngine_def)

lemma engine0_tracking: "trackingPatterns engine0 = trackingPatterns_init"
  by (simp add: engine0_def engine_initialize_def new_PatternRecognitionEngine_def
      initializePatterns_def)

lemma engine_initialize_fresh:
  "\<not> engine_isInitialized s \<Longrightarrow> engine_initialize (s::PatternRecognitionEngine) = engine0"
  by (simp add: engine0_def engine_initialize_def new_PatternRecognitionEngine_def
      initializePatterns_def)

text \<open>When the eight detectors return, \<open>detectPatterns\<close> returns the resolved matches.\<close>

lemma detectPatterns_returns:
  assumes "engine_isInitialized s"
    and "detectEmails text = Some e" and "detectPhoneNumbers text = Some p"
    and "detectUrls text = Some u" and "detectTrackingNumbers s text = Some t"
    and "detectAddresses s text = Some a" and "detectDateTime s text = Some d"
    and "detectCurrency s text = Some c" and "detectUnits s text = Some n"
  shows "detectPatterns s text
     = Some (Returns (sortAndDeduplicatePatterns (e @ p @ u @ t @ a @ d @ c @ n)))"
  using assms
  by (simp add: detectPatterns_def detect_with_def engine_detectors_def as_detector_def)

text \<open>A detector that never returns keeps \<open>detectPatterns\<close> from returning.\<close>

lemma detectPatterns_diverges_tracking:
  assumes "engine_isInitialized s"
    and "detectEmails text = Some e" and "detectPhoneNumbers text = Some p"
    and "detectUrls text = Some u" and "detectTrackingNumbers s text = None"
  shows "detectPatterns s text = None"
  using assms
  by (simp add: detectPatterns_def detect_with_def engine_detectors_def as_detector_def)

lemma detectPatterns_diverges_urls:
  assumes "engine_isInitialized s"
    and "detectEmails text = Some e" and "detectPhoneNumbers text = Some p"
    and "detectUrls text = None"
  shows "detectPatterns s text = None"
  using assms
  by (simp add: detectPatterns_def detect_with_def engine_detectors_def as_detector_def)

subsection \<open>A UPS tracking number and an https URL\<close>

lemma ups_exec: "exec (re_plain ups_shape) ups_number 0 = Some (0, 18)"
  by code_simp

lemma url_exec: "exec PATTERN_REGEX_URL https_url 0 = Some (0, 19)"
  by code_simp

lemma ups_emails: "detectEmails ups_number = Some []"
  by code_simp

lemma ups_phones: "detectPhoneNumbers ups_number = Some []"
  by code_simp

lemma ups_urls: "detectUrls ups_number = Some []"
  by code_simp

lemma url_emails: "detectEmails https_url = Some []"
  by code_simp

lemma url_phones: "detectPhoneNumbers https_url = Some []"
  by code_simp

lemma ups_tracking_diverges: "detectTrackingNumbers engine0 ups_number = None"
proof -
  have "exec_while (re_plain ups_shape) ups_number (tracking_body ''UPS'') 0 [] = None"
    by (rule exec_while_diverges [OF _ ups_exec]) (simp add: re_plain_def)
  then show ?thesis
    by (simp add: detectTrackingNumbers_def engine0_tracking trackingPatterns_init_def)
qed

lemma url_diverges: "detectUrls https_url = None"
  unfolding detectUrls_def
  by (rule exec_while_diverges [OF _ url_exec]) (simp add: PATTERN_REGEX_URL_def re_plain_def)

text \<open>
  C2.  The code at the inputs of the claim: on the UPS number \<open>1Z999AA10123456784\<close>
  the loop of \<open>detectTrackingNumbers\<close> never ends, on the URL \<open>https://example.com\<close>
  the loop of \<open>detectUrls\<close> never ends, and \<open>detectPatterns\<close> on an initialized
  engine returns for neither text.  The expressions of \<open>trackingPatterns\<close> and
  \<open>PATTERN_REGEX.URL\<close> have no \<open>g\<close> flag, so every \<open>exec\<close> starts at 0 again.
\<close>

theorem tracking_and_url_loops_never_return:
  "detectTrackingNumbers engine0 ups_number = None
   \<and> detectUrls https_url = None
   \<and> detectPatterns engine0 ups_number = None
   \<and> detectPatterns engine0 https_url = None"
  using ups_tracking_diverges url_diverges
    detectPatterns_diverges_tracking [OF engine0_initialized ups_emails ups_phones ups_urls
      ups_tracking_diverges]
    detectPatterns_diverges_urls [OF engine0_initialized url_emails url_phones url_diverges]
  by simp

subsection \<open>The text \<open>test@example.com\<close>\<close>

lemma email_emails: "detectEmails email_text = Some [email_candidate]"
  by code_simp

lemma email_phones: "detectPhoneNumbers email_text = Some []"
  by code_simp

lemma email_urls: "detectUrls email_text = Some []"
  by code_simp

lemma email_tracking: "detectTrackingNumbers engine0 email_text = Some []"
  by code_simp

lemma email_addresses: "detectAddresses engine0 email_text = Some []"
  by code_simp

lemma email_dateTime: "detectDateTime engine0 email_text = Some []"
  by code_simp

lemma email_currency: "detectCurrency engine0 email_text = Some [dotcom_candidate]"
  by code_simp

lemma email_units: "detectUnits engine0 email_text = Some []"
  by code_simp

lemma email_resolved:
  "sortAndDeduplicatePatterns [email_candidate, dotcom_candidate] = [dotcom_candidate]"
  by code_simp

text \<open>
  C8.  The code at the input of the claim: for the text \<open>test@example.com\<close>
  \<open>detectEmails\<close> finds the EMAIL candidate over the whole text (confidence 0.9, domain
  \<open>example.com\<close>), but the last currency pattern matches \<open>.com\<close> at 12..16 with the
  confidence 0.8 + 12 * 0.05 = 1.4, and the resolver keeps this CURRENCY match and drops
  the overlapping EMAIL candidate: \<open>detectPatterns\<close> returns exactly one match, of type
  CURRENCY.
\<close>

theorem email_text_yields_currency_match:
  "detectEmails email_text = Some [email_candidate]
   \<and> detectCurrency engine0 email_text = Some [dotcom_candidate]
   \<and> detectPatterns engine0 email_text = Some (Returns [dotcom_candidate])
   \<and> ptype dotcom_candidate = CURRENCY
   \<and> match dotcom_candidate = str ''.com''
   \<and> startIndex dotcom_candidate = 12 \<and> endIndex dotcom_candidate = 16
   \<and> confidence dotcom_candidate = 14 / 10"
  using email_emails email_currency email_resolved
    detectPatterns_returns [OF engine0_initialized email_emails email_phones email_urls
      email_tracking email_addresses email_dateTime email_currency email_units]
  by (simp add: dotcom_candidate_def mk_match_def str_def)

subsection \<open>The texts \<open>$100\<close>, \<open>\<euro>100\<close> and \<open>USD 100\<close>\<close>

lemma dollar_first_pattern:
  "exec (currencyPatterns engine0 ! 0) dollar_text 0 = Some (0, 4)
   \<and> calculateCurrencyConfidence dollar_text 0 = 8 / 10
   \<and> currency_body 0 dollar_text 0 = []"
  by code_simp

lemma dollar_detect: "detectPatterns engine0 dollar_text = Some (Returns [])"
  by code_simp

lemma euro_detect: "detectPatterns engine0 euro_text = Some (Returns [euro_candidate])"
  by code_simp

lemma usd_detect: "detectPatterns engine0 usd_text = Some (Returns [usd_candidate])"
  by code_simp

text \<open>
  C6.  The code at the inputs of the claim: for the text \<open>$100\<close> \<open>detectPatterns\<close>
  returns no match at all.  The dollar pattern is the first of \<open>currencyPatterns\<close>; it
  matches the whole text, its confidence is 0.8 + 0 * 0.05 = 0.8, and a candidate is pushed
  only when \<open>confidence > 0.8\<close>.  For the euro sign followed by \<open>100\<close> (pattern
  index 1, confidence 0.85) the result is one CURRENCY match with the code \<open>EUR\<close>.
\<close>

theorem dollar_amount_not_detected:
  "detectPatterns engine0 dollar_text = Some (Returns [])
   \<and> exec (currencyPatterns engine0 ! 0) dollar_text 0 = Some (0, 4)
   \<and> calculateCurrencyConfidence dollar_text 0 = 8 / 10
   \<and> detectPatterns engine0 euro_text = Some (Returns [euro_candidate])
   \<and> ptype euro_candidate = CURRENCY
   \<and> map_of (metadata euro_candidate) ''code'' = Some (str ''EUR'')"
  using dollar_detect dollar_first_pattern euro_detect
  by (simp add: euro_candidate_def mk_match_def)

lemma unit_detect: "detectPatterns engine0 unit_text = Some (Returns [gb_candidate])"
  by code_simp

text \<open>
  C4.  The code at two inputs: for the text \<open>USD 100\<close> \<open>detectPatterns\<close> returns a
  CURRENCY match of confidence 0.8 + 8 * 0.05 = 1.2, and for the text \<open>2 GB\<close> a UNIT
  match of confidence 0.8 + 6 * 0.05 = 1.1; both exceed 1.  \<open>calculateCurrencyConfidence\<close>
  and \<open>calculateUnitConfidence\<close> have no \<open>Math.min(..., 0.95)\<close>, which the address,
  date, tracking and postal-code heuristics have.
\<close>

theorem currency_confidence_exceeds_one:
  "detectPatterns engine0 usd_text = Some (Returns [usd_candidate])
   \<and> ptype usd_candidate = CURRENCY
   \<and> confidence usd_candidate = 12 / 10
   \<and> 1 < confidence usd_candidate
   \<and> detectPatterns engine0 unit_text = Some (Returns [gb_candidate])
   \<and> ptype gb_candidate = UNIT
   \<and> confidence gb_candidate = 11 / 10
   \<and> 1 < confidence gb_candidate"
  using usd_detect unit_detect
  by (simp add: usd_candidate_def gb_candidate_def mk_match_def)

subsection \<open>Texts without candidates\<close>

lemma empty_detect: "detectPatterns engine0 [] = Some (Returns [])"
  by code_simp

lemma plain_detectors:
  "detectEmails plain_text = Some [] \<and> detectPhoneNumbers plain_text = Some []
   \<and> detectUrls plain_text = Some [] \<and> detectTrackingNumbers engine0 plain_text = Some []
   \<and> detectAddresses engine0 plain_text = Some [] \<and> detectDateTime engine0 plain_text = Some []
   \<and> detectCurrency engine0 plain_text = Some [] \<and> detectUnits engine0 plain_text = Some []"
  by code_simp

text \<open>
  \<open>detectPatterns\<close> throws before \<open>initialize()\<close>; on an engine initialized from a
  fresh one it returns the empty list for the empty text; and it returns the empty list
  whenever each of the eight detectors returns the empty list.
\<close>

lemma not_initialized_throws_and_no_candidates_is_empty:
  "(\<not> engine_isInitialized s \<longrightarrow>
      detectPatterns s text = Some (Throws ''PatternRecognitionEngine not initialized''))
   \<and> (\<not> engine_isInitialized s \<longrightarrow>
      detectPatterns (engine_initialize s) [] = Some (Returns []))
   \<and> (engine_isInitialized s
       \<and> detectEmails text = Some [] \<and> detectPhoneNumbers text = Some []
       \<and> detectUrls text = Some [] \<and> detectTrackingNumbers s text = Some []
       \<and> detectAddresses s text = Some [] \<and> detectDateTime s text = Some []
       \<and> detectCurrency s text = Some [] \<and> detectUnits s text = Some [] \<longrightarrow>
      detectPatterns s text = Some (Returns []))"
proof -
  have 1: "detectPatterns s text = Some (Throws ''PatternRecognitionEngine not initialized'')"
    if "\<not> engine_isInitialized s"
    using that by (simp add: detectPatterns_def detect_with_def)
  have 2: "detectPatterns (engine_initialize s) [] = Some (Returns [])"
    if "\<not> engine_isInitialized s"
    using that by (simp add: engine_initialize_fresh empty_detect)
  have 3: "detectPatterns s text = Some (Returns [])"
    if "engine_isInitialized s" "detectEmails text = Some []" "detectPhoneNumbers text = Some []"
      "detectUrls text = Some []" "detectTrackingNumbers s text = Some []"
      "detectAddresses s text = Some []" "detectDateTime s text = Some []"
      "detectCurrency s text = Some []" "detectUnits s text = Some []"
    using detectPatterns_returns [OF that]
    by (simp add: sortAndDeduplicatePatterns_def sort_by_confidence_def)
  from 1 2 3 show ?thesis by blast
qed

lemma plain_text_is_empty: "detectPatterns engine0 plain_text = Some (Returns [])"
  using not_initialized_throws_and_no_candidates_is_empty [of engine0 plain_text]
    engine0_initialized plain_detectors
  by simp

lemma dotted_emails: "detectEmails dotted_url = Some []"
  by code_simp

lemma dotted_phones: "detectPhoneNumbers dotted_url = Some []"
  by code_simp

lemma dotted_exec: "exec PATTERN_REGEX_URL dotted_url 0 = Some (0, 12)"
  by code_simp

lemma dotted_score:
  "calculateUrlConfidence (slice dotted_url 0 12) = 4 / 10
   \<and> url_body (slice dotted_url 0 12) 0 = []"
  by code_simp

lemma dotted_urls: "detectUrls dotted_url = None"
  unfolding detectUrls_def
  by (rule exec_while_diverges [OF _ dotted_exec]) (simp add: PATTERN_REGEX_URL_def re_plain_def)

text \<open>
  C9.  The code at a text in which no detector emits a candidate: for \<open>http://a..bc\<close>
  the email and phone detectors return the empty list, the URL expression matches the
  whole text, the match scores 0.4 (it contains two dots in a row) and is not pushed, and,
  the expression having no \<open>g\<close> flag, the loop of \<open>detectUrls\<close> finds the same match
  for ever: \<open>detectPatterns\<close> on an initialized engine does not return the empty list,
  it does not return.
\<close>

theorem no_candidate_text_never_returns:
  "detectEmails dotted_url = Some []
   \<and> detectPhoneNumbers dotted_url = Some []
   \<and> exec PATTERN_REGEX_URL dotted_url 0 = Some (0, 12)
   \<and> url_body (slice dotted_url 0 12) 0 = []
   \<and> detectUrls dotted_url = None
   \<and> detectPatterns engine0 dotted_url = None"
  using dotted_emails dotted_phones dotted_exec dotted_score dotted_urls
    detectPatterns_diverges_urls [OF engine0_initialized dotted_emails dotted_phones dotted_urls]
  by simp

subsection \<open>A detector that throws\<close>

lemma run_detectors_throw:
  assumes "i < length ds" and "(ds ! i) text = Some (Throws e)"
    and "\<forall>j < i. \<exists>found. (ds ! j) text = Some (Returns found)"
  shows "run_detectors ds text patterns = Some (Throws e)"
  using assms
proof (induction ds arbitrary: i patterns)
  case Nil
  then show ?case by simp
next
  case (Cons d ds)
  show ?case
  proof (cases i)
    case 0
    with Cons.prems show ?thesis by simp
  next
    case (Suc k)
    with Cons.prems(3) obtain found where f: "d text = Some (Returns found)" by fastforce
    have "\<forall>j < k. \<exists>found. (ds ! j) text = Some (Returns found)"
    proof (intro allI impI)
      fix j assume "j < k"
      with Suc have "Suc j < i" by simp
      with Cons.prems(3) show "\<exists>found. (ds ! j) text = Some (Returns found)" by fastforce
    qed
    with Cons.IH [of k "patterns @ found"] Cons.prems(1,2) Suc f show ?thesis by simp
  qed
qed

text \<open>
  C5 (as amended).  If one detector throws during \<open>detectPatterns\<close> on an initialized
  engine, the detectors before it having returned, the one \<open>try\<close>/\<open>catch\<close> around
  the whole detection catches the error and the call returns the empty list, whatever the
  other detectors found or would find.
\<close>

theorem throwing_detector_empties_result:
  assumes "i < length ds" and "(ds ! i) text = Some (Throws e)"
    and "\<forall>j < i. \<exists>found. (ds ! j) text = Some (Returns found)"
  shows "detect_with True ds text = Some (Returns [])"
  using run_detectors_throw [OF assms, of "[]"] by (simp add: detect_with_def)

theorem throwing_detector_empties_result_witness:
  "(1::nat) < length [returning_detector, throwing_detector]
   \<and> ([returning_detector, throwing_detector] ! 0) plain_text
       = Some (Returns [pm EMAIL (9 / 10) 0 16])
   \<and> ([returning_detector, throwing_detector] ! 1) plain_text = Some (Throws ''detector failed'')
   \<and> detect_with True [returning_detector, throwing_detector] plain_text = Some (Returns [])"
proof -
  have a: "(1::nat) < length [returning_detector, throwing_detector]" by simp
  have b: "([returning_detector, throwing_detector] ! 1) plain_text
      = Some (Throws ''detector failed'')"
    by (simp add: throwing_detector_def)
  have c: "\<forall>j < (1::nat). \<exists>found. ([returning_detector, throwing_detector] ! j) plain_text
          = Some (Returns found)"
    by (simp add: returning_detector_def)
  have d: "([returning_detector, throwing_detector] ! 0) plain_text
      = Some (Returns [pm EMAIL (9 / 10) 0 16])"
    by (simp add: returning_detector_def)
  from throwing_detector_empties_result [OF a b c] a b d show ?thesis by simp
qed

text \<open>
  C5 (as stated) fails: with a detector that returns one match and a detector that throws,
  the call returns the empty list and not the match of the detector that did not fail,
  in either order of the two.
\<close>

theorem failing_detector_discards_other_matches:
  "detect_with True [returning_detector] plain_text = Some (Returns [pm EMAIL (9 / 10) 0 16])
   \<and> detect_with True [returning_detector, throwing_detector] plain_text = Some (Returns [])
   \<and> detect_with True [throwing_detector, returning_detector] plain_text = Some (Returns [])"
  by (simp add: detect_with_def returning_detector_def throwing_detector_def
      sortAndDeduplicatePatterns_def sort_by_confidence_def)

end
